theory Spec2Isabelle
  imports Complex_Main "HOL-Library.Sublist"
begin

text \<open>
  A shallow embedding of the will generator's assembly pipeline: the context builder
  (context\_builder.py), the clause selection engine (clause\_logic.py), the attestation
  renderer (clause\_renderer.py) and the integrity check (pdf\_generator.py), with the
  properties of the specification proved about them. Exceptions are values of
  \<open>py_error + 'a\<close>, loops are recursive functions, dictionaries are association lists.
\<close>

section \<open>Python values\<close>

text \<open>
  The payload handed to \<^verbatim>\<open>build_context\<close> is decoded JSON, and every entity field is
  filled with whatever \<^verbatim>\<open>dict.get\<close> returns, so a field can hold any JSON value.
  \<open>pyval\<close> is the type of these values. A dictionary is an association list in
  insertion order, read with \<open>map_of\<close>; JSON object keys are strings.
  A float is represented by the rational number it denotes: rounding, infinities and NaN
  are not modelled.
\<close>

datatype pyval =
    PNone
  | PBool bool
  | PInt int
  | PFloat rat
  | PStr string
  | PList "pyval list"
  | PDict "(string \<times> pyval) list"

section \<open>Python operations on values\<close>

datatype py_error = AttributeError | TypeError | OverflowError

text \<open>Sequencing of computations that may raise.\<close>

definition bind_result :: "py_error + 'a \<Rightarrow> ('a \<Rightarrow> py_error + 'b) \<Rightarrow> py_error + 'b" where
  "bind_result r f = (case r of Inl e \<Rightarrow> Inl e | Inr v \<Rightarrow> f v)"

text \<open>A list comprehension whose element expression may raise.\<close>

fun map_result :: "('a \<Rightarrow> py_error + 'b) \<Rightarrow> 'a list \<Rightarrow> py_error + 'b list" where
  "map_result f [] = Inr []"
| "map_result f (x # xs) =
     (case f x of
        Inl e \<Rightarrow> Inl e
      | Inr y \<Rightarrow> (case map_result f xs of Inl e \<Rightarrow> Inl e | Inr ys \<Rightarrow> Inr (y # ys)))"

text \<open>Truth value testing (\<^verbatim>\<open>if x\<close>, \<^verbatim>\<open>not x\<close>, \<^verbatim>\<open>bool(x)\<close>).\<close>

fun py_truthy :: "pyval \<Rightarrow> bool" where
  "py_truthy PNone = False"
| "py_truthy (PBool b) = b"
| "py_truthy (PInt n) = (n \<noteq> 0)"
| "py_truthy (PFloat r) = (r \<noteq> 0)"
| "py_truthy (PStr s) = (s \<noteq> [])"
| "py_truthy (PList xs) = (xs \<noteq> [])"
| "py_truthy (PDict kvs) = (kvs \<noteq> [])"

text \<open>\<^verbatim>\<open>d.get(key, default)\<close> on a dictionary.\<close>

definition dget :: "(string \<times> pyval) list \<Rightarrow> string \<Rightarrow> pyval \<Rightarrow> pyval" where
  "dget d key dflt = (case map_of d key of Some v \<Rightarrow> v | None \<Rightarrow> dflt)"

text \<open>
  \<^verbatim>\<open>obj.get(key, default)\<close> on any value: only a dictionary has the method; on None, a
  number, a string or a list the attribute lookup raises AttributeError.
\<close>

fun py_get :: "pyval \<Rightarrow> string \<Rightarrow> pyval \<Rightarrow> py_error + pyval" where
  "py_get (PDict d) key dflt = Inr (dget d key dflt)"
| "py_get _ key dflt = Inl AttributeError"

text \<open>
  \<^verbatim>\<open>for x in obj\<close>: a list gives its elements, a dictionary its keys, a string its
  characters; None, a bool and a number are not iterable (TypeError).
\<close>

fun py_iter :: "pyval \<Rightarrow> py_error + pyval list" where
  "py_iter (PList xs) = Inr xs"
| "py_iter (PDict kvs) = Inr (map (\<lambda>kv. PStr (fst kv)) kvs)"
| "py_iter (PStr s) = Inr (map (\<lambda>ch. PStr [ch]) s)"
| "py_iter _ = Inl TypeError"

text \<open>The numeric value of a bool, an int or a float.\<close>

fun py_num :: "pyval \<Rightarrow> rat option" where
  "py_num (PBool b) = Some (if b then 1 else 0)"
| "py_num (PInt n) = Some (of_int n)"
| "py_num (PFloat r) = Some r"
| "py_num _ = None"

text \<open>
  \<^verbatim>\<open>a == b\<close>: numbers compare by value across bool, int and float, strings and None
  by identity of value, lists element by element, dictionaries by their key sets and the
  values under each key (whatever the insertion order). Values of different kinds are
  unequal. \<open>==\<close> never raises on these values.
\<close>

fun py_eq :: "pyval \<Rightarrow> pyval \<Rightarrow> bool" where
  "py_eq PNone b = (b = PNone)"
| "py_eq (PStr s) b = (b = PStr s)"
| "py_eq (PBool x) b = (py_num b = py_num (PBool x))"
| "py_eq (PInt x) b = (py_num b = py_num (PInt x))"
| "py_eq (PFloat x) b = (py_num b = py_num (PFloat x))"
| "py_eq (PList xs) b = (case b of PList ys \<Rightarrow> list_all2 py_eq xs ys | _ \<Rightarrow> False)"
| "py_eq (PDict kvs) b =
     (case b of
        PDict kvs' \<Rightarrow>
          length kvs = length kvs' \<and>
          list_all (\<lambda>kv. case map_of kvs' (fst kv) of
                           Some v' \<Rightarrow> py_eq (snd kv) v'
                         | None \<Rightarrow> False) kvs
      | _ \<Rightarrow> False)"

text \<open>\<^verbatim>\<open>x in [a, b, ...]\<close>.\<close>

definition py_in :: "pyval \<Rightarrow> pyval list \<Rightarrow> bool" where
  "py_in x ys = list_ex (py_eq x) ys"

text \<open>
  \<^verbatim>\<open>acc += x\<close> for a float accumulator: a bool, an int or a float is added; an int
  that does not fit a double raises OverflowError; None, a string, a list or a dictionary
  raises TypeError. The sum is kept as an exact rational: the rounding of floating-point
  addition, infinities and NaN are not modelled.
\<close>

fun py_float_add :: "rat \<Rightarrow> pyval \<Rightarrow> py_error + rat" where
  "py_float_add acc (PBool b) = Inr (acc + (if b then 1 else 0))"
| "py_float_add acc (PInt n) =
     (if \<bar>n\<bar> \<ge> 2 ^ 1024 - 2 ^ 970 then Inl OverflowError else Inr (acc + of_int n))"
| "py_float_add acc (PFloat r) = Inr (acc + r)"
| "py_float_add acc _ = Inl TypeError"

text \<open>\<^verbatim>\<open>str(n)\<close> for a non-negative integer, as in \<^verbatim>\<open>f'beneficiary_{index}'\<close>.\<close>

fun str_of_nat :: "nat \<Rightarrow> string" where
  "str_of_nat n =
     (if n < 10 then [''0123456789'' ! n]
      else str_of_nat (n div 10) @ [''0123456789'' ! (n mod 10)])"

declare str_of_nat.simps [simp del]

section \<open>Data model (context\_builder.py)\<close>

text \<open>
  Several dataclasses of the source share field names (\<^verbatim>\<open>full_name\<close>,
  \<^verbatim>\<open>address\<close>, ...); the fields of each entity carry a short prefix here. The fields
  of \<^verbatim>\<open>WillContext\<close> keep their names.
\<close>

record Address =
  street :: pyval
  suburb :: pyval
  state :: pyval
  postcode :: pyval

record WillMaker =
  wm_full_name :: pyval
  wm_dob :: pyval
  wm_occupation :: pyval
  wm_address :: Address
  wm_email :: pyval
  wm_phone :: pyval
  wm_relationship_status :: pyval

record Partner =
  pt_full_name :: pyval
  pt_dob :: pyval
  pt_address :: Address
  pt_email :: pyval
  pt_phone :: pyval

record Child =
  ch_full_name :: pyval
  ch_dob :: pyval
  ch_relationship_type :: pyval
  ch_is_expected_to_be_minor_at_death :: pyval
  ch_special_needs :: pyval

record Dependant =
  dp_full_name :: pyval
  dp_relationship_category :: pyval

record Executor =
  ex_full_name :: pyval
  ex_relationship :: pyval
  ex_address :: Address
  ex_phone :: pyval
  ex_email :: pyval

record Guardian =
  gd_full_name :: pyval
  gd_relationship :: pyval
  gd_address :: Address
  gd_phone :: pyval

record Beneficiary =
  bn_id :: pyval
  bn_type :: pyval
  bn_full_name :: pyval
  bn_relationship :: pyval
  bn_address :: Address
  bn_abn :: pyval
  bn_gift_role :: pyval
  bn_residue_share_percent :: pyval
  bn_percentage :: pyval
  bn_cash_amount :: pyval
  bn_item_description :: pyval

record SpecificGift =
  sg_beneficiary_id :: pyval
  sg_beneficiary_name :: pyval
  sg_gift_type :: pyval
  sg_cash_amount :: pyval
  sg_item_description :: pyval

record ResidueBeneficiary =
  rb_beneficiary_id :: pyval
  rb_beneficiary_name :: pyval
  rb_share_percent :: pyval

record BusinessInterest =
  bi_interest_type :: pyval
  bi_entity_name :: pyval
  bi_acn :: pyval
  bi_abn :: pyval
  bi_recipient_mode :: pyval
  bi_recipient_id :: pyval
  bi_recipient_name :: pyval
  bi_recipient_address :: Address

record Exclusion =
  xc_person_name :: pyval
  xc_category :: pyval
  xc_reasons :: pyval
  xc_other_note :: pyval

record WillContext =
  will_maker :: WillMaker
  partner :: "Partner option"
  separation :: pyval
  children :: "Child list"
  other_dependants :: "Dependant list"
  executors :: "Executor list"
  backup_executors :: "Executor list"
  guardian :: "Guardian option"
  backup_guardian :: "Guardian option"
  beneficiaries :: "Beneficiary list"
  specific_gifts :: "SpecificGift list"
  residue_beneficiaries :: "ResidueBeneficiary list"
  business_interests :: "BusinessInterest list"
  exclusions :: "Exclusion list"
  distribution_scheme :: pyval
  survivorship_days :: pyval
  substitution_rule :: pyval
  alternate_beneficiary_id :: pyval
  alternate_beneficiary_name :: pyval
  minor_trusts_enabled :: bool
  minor_trusts_vesting_age :: pyval
  minor_trusts_trustee_mode :: pyval
  minor_trusts_trustee :: "Executor option"
  funeral_enabled :: bool
  funeral_preference :: pyval
  funeral_notes :: pyval
  digital_assets_enabled :: bool
  digital_assets_authority :: pyval
  digital_assets_categories :: pyval
  digital_assets_instructions_location :: pyval
  pets_enabled :: bool
  pets_count :: pyval
  pets_summary :: pyval
  pets_carer_mode :: pyval
  pets_carer_name :: pyval
  pets_carer_address :: Address
  pets_cash_gift :: pyval
  business_enabled :: bool
  exclusion_enabled :: bool
  life_sustaining_enabled :: bool
  life_sustaining_template :: pyval
  life_sustaining_values :: pyval
  assets :: pyval
  intended_signing_date :: pyval
  has_partner :: bool
  has_children :: bool
  has_minor_children :: bool
  has_guardianship :: bool
  has_specific_gifts :: bool
  has_residue_scheme :: bool
  has_percentages :: bool
  has_exclusions :: bool
  has_digital_assets :: bool
  has_pets :: bool
  has_business_interests :: bool
  has_funeral_wishes :: bool
  has_life_sustaining_statement :: bool
  has_minor_trusts :: bool
  has_substitution :: bool
  has_alternate_beneficiary :: bool
  beneficiary_count :: nat
  minor_beneficiary_count :: nat
  percentage_sum :: rat
  executor_count :: nat

section \<open>Entities (context\_builder.py)\<close>

text \<open>The dataclass defaults: \<^verbatim>\<open>Address()\<close>, \<^verbatim>\<open>WillMaker()\<close>, ...\<close>

definition new_Address :: Address where
  "new_Address = \<lparr>street = PStr '''', suburb = PStr '''', state = PStr '''', postcode = PStr ''''\<rparr>"

definition new_WillMaker :: WillMaker where
  "new_WillMaker =
     \<lparr>wm_full_name = PStr '''', wm_dob = PNone, wm_occupation = PStr '''',
      wm_address = new_Address, wm_email = PStr '''', wm_phone = PStr '''',
      wm_relationship_status = PStr ''''\<rparr>"

definition new_Partner :: Partner where
  "new_Partner =
     \<lparr>pt_full_name = PStr '''', pt_dob = PNone, pt_address = new_Address,
      pt_email = PStr '''', pt_phone = PStr ''''\<rparr>"

definition new_Child :: Child where
  "new_Child =
     \<lparr>ch_full_name = PStr '''', ch_dob = PNone, ch_relationship_type = PStr '''',
      ch_is_expected_to_be_minor_at_death = PBool False, ch_special_needs = PBool False\<rparr>"

definition new_Dependant :: Dependant where
  "new_Dependant = \<lparr>dp_full_name = PStr '''', dp_relationship_category = PStr ''''\<rparr>"

definition new_Executor :: Executor where
  "new_Executor =
     \<lparr>ex_full_name = PStr '''', ex_relationship = PStr '''', ex_address = new_Address,
      ex_phone = PStr '''', ex_email = PStr ''''\<rparr>"

definition new_Guardian :: Guardian where
  "new_Guardian =
     \<lparr>gd_full_name = PStr '''', gd_relationship = PStr '''', gd_address = new_Address,
      gd_phone = PStr ''''\<rparr>"

definition new_Beneficiary :: Beneficiary where
  "new_Beneficiary =
     \<lparr>bn_id = PStr '''', bn_type = PStr ''individual'', bn_full_name = PStr '''',
      bn_relationship = PStr '''', bn_address = new_Address, bn_abn = PStr '''',
      bn_gift_role = PStr '''', bn_residue_share_percent = PNone, bn_percentage = PNone,
      bn_cash_amount = PNone, bn_item_description = PStr ''''\<rparr>"

definition new_BusinessInterest :: BusinessInterest where
  "new_BusinessInterest =
     \<lparr>bi_interest_type = PStr '''', bi_entity_name = PStr '''', bi_acn = PStr '''',
      bi_abn = PStr '''', bi_recipient_mode = PStr '''', bi_recipient_id = PNone,
      bi_recipient_name = PStr '''', bi_recipient_address = new_Address\<rparr>"

definition new_Exclusion :: Exclusion where
  "new_Exclusion =
     \<lparr>xc_person_name = PStr '''', xc_category = PStr '''', xc_reasons = PList [],
      xc_other_note = PStr ''''\<rparr>"

definition new_WillContext :: WillContext where
  "new_WillContext =
     \<lparr>will_maker = new_WillMaker, partner = None, separation = PDict [], children = [],
      other_dependants = [], executors = [], backup_executors = [], guardian = None,
      backup_guardian = None, beneficiaries = [], specific_gifts = [],
      residue_beneficiaries = [], business_interests = [], exclusions = [],
      distribution_scheme = PStr '''', survivorship_days = PInt 30,
      substitution_rule = PStr '''', alternate_beneficiary_id = PNone,
      alternate_beneficiary_name = PStr '''',
      minor_trusts_enabled = False, minor_trusts_vesting_age = PInt 18,
      minor_trusts_trustee_mode = PStr '''', minor_trusts_trustee = None,
      funeral_enabled = False, funeral_preference = PStr '''', funeral_notes = PStr '''',
      digital_assets_enabled = False, digital_assets_authority = PBool False,
      digital_assets_categories = PList [], digital_assets_instructions_location = PStr '''',
      pets_enabled = False, pets_count = PInt 0, pets_summary = PStr '''',
      pets_carer_mode = PStr '''', pets_carer_name = PStr '''',
      pets_carer_address = new_Address, pets_cash_gift = PNone,
      business_enabled = False, exclusion_enabled = False,
      life_sustaining_enabled = False, life_sustaining_template = PStr '''',
      life_sustaining_values = PList [],
      assets = PDict [], intended_signing_date = PNone,
      has_partner = False, has_children = False, has_minor_children = False,
      has_guardianship = False, has_specific_gifts = False, has_residue_scheme = False,
      has_percentages = False, has_exclusions = False, has_digital_assets = False,
      has_pets = False, has_business_interests = False, has_funeral_wishes = False,
      has_life_sustaining_statement = False, has_minor_trusts = False,
      has_substitution = False, has_alternate_beneficiary = False,
      beneficiary_count = 0, minor_beneficiary_count = 0, percentage_sum = 0,
      executor_count = 0\<rparr>"

text \<open>
  The \<^verbatim>\<open>from_dict\<close> class methods. Each starts with \<^verbatim>\<open>if not data: return cls()\<close>;
  after that every field is read with \<^verbatim>\<open>data.get\<close>, which raises AttributeError
  unless \<open>data\<close> is a dictionary.
\<close>

definition Address_from_dict :: "pyval \<Rightarrow> py_error + Address" where
  "Address_from_dict data =
     (if \<not> py_truthy data then Inr new_Address
      else case data of
        PDict d \<Rightarrow>
          Inr \<lparr>street = dget d ''street'' (PStr ''''), suburb = dget d ''suburb'' (PStr ''''),
               state = dget d ''state'' (PStr ''''), postcode = dget d ''postcode'' (PStr '''')\<rparr>
      | _ \<Rightarrow> Inl AttributeError)"

definition WillMaker_from_dict :: "pyval \<Rightarrow> py_error + WillMaker" where
  "WillMaker_from_dict data =
     (if \<not> py_truthy data then Inr new_WillMaker
      else case data of
        PDict d \<Rightarrow>
          bind_result (Address_from_dict (dget d ''address'' (PDict []))) (\<lambda>address.
          Inr \<lparr>wm_full_name = dget d ''full_name'' (PStr ''''),
               wm_dob = dget d ''dob'' PNone,
               wm_occupation = dget d ''occupation'' (PStr ''''),
               wm_address = address,
               wm_email = dget d ''email'' (PStr ''''),
               wm_phone = dget d ''phone'' (PStr ''''),
               wm_relationship_status = dget d ''relationship_status'' (PStr '''')\<rparr>)
      | _ \<Rightarrow> Inl AttributeError)"

definition Partner_from_dict :: "pyval \<Rightarrow> py_error + Partner" where
  "Partner_from_dict data =
     (if \<not> py_truthy data then Inr new_Partner
      else case data of
        PDict d \<Rightarrow>
          bind_result (Address_from_dict (dget d ''address'' (PDict []))) (\<lambda>address.
          Inr \<lparr>pt_full_name = dget d ''full_name'' (PStr ''''),
               pt_dob = dget d ''dob'' PNone,
               pt_address = address,
               pt_email = dget d ''email'' (PStr ''''),
               pt_phone = dget d ''phone'' (PStr '''')\<rparr>)
      | _ \<Rightarrow> Inl AttributeError)"

definition Child_from_dict :: "pyval \<Rightarrow> py_error + Child" where
  "Child_from_dict data =
     (if \<not> py_truthy data then Inr new_Child
      else case data of
        PDict d \<Rightarrow>
          Inr \<lparr>ch_full_name = dget d ''full_name'' (PStr ''''),
               ch_dob = dget d ''dob'' PNone,
               ch_relationship_type = dget d ''relationship_type'' (PStr ''''),
               ch_is_expected_to_be_minor_at_death =
                 dget d ''is_expected_to_be_minor_at_death'' (PBool False),
               ch_special_needs = dget d ''special_needs'' (PBool False)\<rparr>
      | _ \<Rightarrow> Inl AttributeError)"

definition Dependant_from_dict :: "pyval \<Rightarrow> py_error + Dependant" where
  "Dependant_from_dict data =
     (if \<not> py_truthy data then Inr new_Dependant
      else case data of
        PDict d \<Rightarrow>
          Inr \<lparr>dp_full_name = dget d ''full_name'' (PStr ''''),
               dp_relationship_category = dget d ''relationship_category'' (PStr '''')\<rparr>
      | _ \<Rightarrow> Inl AttributeError)"

definition Executor_from_dict :: "pyval \<Rightarrow> py_error + Executor" where
  "Executor_from_dict data =
     (if \<not> py_truthy data then Inr new_Executor
      else case data of
        PDict d \<Rightarrow>
          bind_result (Address_from_dict (dget d ''address'' (PDict []))) (\<lambda>address.
          Inr \<lparr>ex_full_name = dget d ''full_name'' (PStr ''''),
               ex_relationship = dget d ''relationship'' (PStr ''''),
               ex_address = address,
               ex_phone = dget d ''phone'' (PStr ''''),
               ex_email = dget d ''email'' (PStr '''')\<rparr>)
      | _ \<Rightarrow> Inl AttributeError)"

definition Guardian_from_dict :: "pyval \<Rightarrow> py_error + Guardian" where
  "Guardian_from_dict data =
     (if \<not> py_truthy data then Inr new_Guardian
      else case data of
        PDict d \<Rightarrow>
          bind_result (Address_from_dict (dget d ''address'' (PDict []))) (\<lambda>address.
          Inr \<lparr>gd_full_name = dget d ''full_name'' (PStr ''''),
               gd_relationship = dget d ''relationship'' (PStr ''''),
               gd_address = address,
               gd_phone = dget d ''phone'' (PStr '''')\<rparr>)
      | _ \<Rightarrow> Inl AttributeError)"

definition Beneficiary_from_dict :: "pyval \<Rightarrow> nat \<Rightarrow> py_error + Beneficiary" where
  "Beneficiary_from_dict data index =
     (if \<not> py_truthy data then Inr new_Beneficiary
      else case data of
        PDict d \<Rightarrow>
          bind_result (Address_from_dict (dget d ''address'' (PDict []))) (\<lambda>address.
          Inr \<lparr>bn_id = dget d ''id'' (PStr (''beneficiary_'' @ str_of_nat index)),
               bn_type = dget d ''type'' (PStr ''individual''),
               bn_full_name = dget d ''full_name'' (PStr ''''),
               bn_relationship = dget d ''relationship'' (PStr ''''),
               bn_address = address,
               bn_abn = dget d ''abn'' (PStr ''''),
               bn_gift_role = dget d ''gift_role'' (PStr ''''),
               bn_residue_share_percent = dget d ''residue_share_percent'' PNone,
               bn_percentage = dget d ''percentage'' PNone,
               bn_cash_amount = dget d ''cash_amount'' PNone,
               bn_item_description = dget d ''item_description'' (PStr '''')\<rparr>)
      | _ \<Rightarrow> Inl AttributeError)"

definition Exclusion_from_dict :: "pyval \<Rightarrow> py_error + Exclusion" where
  "Exclusion_from_dict data =
     (if \<not> py_truthy data then Inr new_Exclusion
      else case data of
        PDict d \<Rightarrow>
          Inr \<lparr>xc_person_name = dget d ''person_name'' (PStr ''''),
               xc_category = dget d ''category'' (PStr ''''),
               xc_reasons = dget d ''reasons'' (PList []),
               xc_other_note = dget d ''other_note'' (PStr '''')\<rparr>
      | _ \<Rightarrow> Inl AttributeError)"

text \<open>
  \<^verbatim>\<open>BusinessInterest.from_dict\<close>: the recipient is looked up among the beneficiaries
  (first match, \<^verbatim>\<open>break\<close>) or read from the nested \<^verbatim>\<open>recipient\<close>, on which \<^verbatim>\<open>.get\<close>
  is called without a guard.
\<close>

definition BusinessInterest_from_dict ::
  "pyval \<Rightarrow> Beneficiary list \<Rightarrow> py_error + BusinessInterest" where
  "BusinessInterest_from_dict data bens =
     (if \<not> py_truthy data then Inr new_BusinessInterest
      else case data of
        PDict d \<Rightarrow>
          (let recipient_mode = dget d ''recipient_mode'' (PStr '''');
               recipient_id = dget d ''recipient_id'' PNone in
           bind_result
             (if py_eq recipient_mode (PStr ''select_beneficiary'') \<and> py_truthy recipient_id
              then (case find (\<lambda>b. py_eq (bn_id b) recipient_id) bens of
                      Some b \<Rightarrow> Inr (bn_full_name b, bn_address b)
                    | None \<Rightarrow> Inr (PStr '''', new_Address))
              else if py_eq recipient_mode (PStr ''new_person'')
              then (let recipient = dget d ''recipient'' (PDict []) in
                    bind_result (py_get recipient ''full_name'' (PStr '''')) (\<lambda>name.
                    bind_result (py_get recipient ''address'' (PDict [])) (\<lambda>addr_data.
                    bind_result (Address_from_dict addr_data) (\<lambda>addr.
                    Inr (name, addr)))))
              else Inr (PStr '''', new_Address))
             (\<lambda>(recipient_name, recipient_address).
                Inr \<lparr>bi_interest_type = dget d ''interest_type'' (PStr ''''),
                     bi_entity_name = dget d ''entity_name'' (PStr ''''),
                     bi_acn = dget d ''acn'' (PStr ''''),
                     bi_abn = dget d ''abn'' (PStr ''''),
                     bi_recipient_mode = recipient_mode,
                     bi_recipient_id = recipient_id,
                     bi_recipient_name = recipient_name,
                     bi_recipient_address = recipient_address\<rparr>))
      | _ \<Rightarrow> Inl AttributeError)"

section \<open>build\_context (context\_builder.py)\<close>

text \<open>
  The first method call \<^verbatim>\<open>section.get(...)\<close> on a value read from the payload raises
  AttributeError unless the value is a dictionary; past that call it is one.
\<close>

fun as_dict :: "pyval \<Rightarrow> py_error + (string \<times> pyval) list" where
  "as_dict (PDict d) = Inr d"
| "as_dict _ = Inl AttributeError"

text \<open>
  \<^verbatim>\<open>build_context\<close> fills one context object from top to bottom. Each block of the
  source (marked there by a comment) is one function here, from the payload dictionary and
  the context built so far to the next context, or to the exception raised.
\<close>

definition build_will_maker :: "(string \<times> pyval) list \<Rightarrow> WillContext \<Rightarrow> py_error + WillContext" where
  "build_will_maker p context =
     bind_result (WillMaker_from_dict (dget p ''will_maker'' (PDict []))) (\<lambda>wm.
     Inr (context\<lparr>will_maker := wm\<rparr>))"

definition build_partner :: "(string \<times> pyval) list \<Rightarrow> WillContext \<Rightarrow> py_error + WillContext" where
  "build_partner p context =
     (let relationship_status = wm_relationship_status (will_maker context);
          context1 = context\<lparr>has_partner :=
            py_in relationship_status [PStr ''married'', PStr ''de_facto'']\<rparr>
      in bind_result
           (if has_partner context1
            then bind_result (Partner_from_dict (dget p ''partner'' (PDict []))) (\<lambda>pt.
                 Inr (context1\<lparr>partner := Some pt\<rparr>))
            else Inr context1) (\<lambda>context2.
         Inr (if py_eq relationship_status (PStr ''separated'')
              then context2\<lparr>separation := dget p ''separation'' (PDict [])\<rparr>
              else context2)))"

definition build_children :: "(string \<times> pyval) list \<Rightarrow> WillContext \<Rightarrow> py_error + WillContext" where
  "build_children p context =
     (if py_truthy (dget p ''has_children'' PNone)
      then bind_result (py_iter (dget p ''children'' (PList []))) (\<lambda>children_data.
           bind_result (map_result Child_from_dict children_data) (\<lambda>cs.
           Inr (context\<lparr>children := cs,
                  has_children := (length cs > 0),
                  has_minor_children :=
                    list_ex (\<lambda>c. py_truthy (ch_is_expected_to_be_minor_at_death c)) cs\<rparr>)))
      else Inr context)"

definition build_other_dependants ::
  "(string \<times> pyval) list \<Rightarrow> WillContext \<Rightarrow> py_error + WillContext" where
  "build_other_dependants p context =
     bind_result (as_dict (dget p ''dependants'' (PDict []))) (\<lambda>dependants_data.
     if py_truthy (dget dependants_data ''has_other_dependants'' PNone)
     then bind_result (py_iter (dget dependants_data ''other_dependants'' (PList []))) (\<lambda>other_deps.
          bind_result (map_result Dependant_from_dict other_deps) (\<lambda>ds.
          Inr (context\<lparr>other_dependants := ds\<rparr>)))
     else Inr context)"

text \<open>\<^verbatim>\<open>x in ['one', 'two_joint', 'two_joint_and_several']\<close>.\<close>

definition listed_mode :: "pyval \<Rightarrow> bool" where
  "listed_mode mode =
     py_in mode [PStr ''one'', PStr ''two_joint'', PStr ''two_joint_and_several'']"

definition build_executors :: "(string \<times> pyval) list \<Rightarrow> WillContext \<Rightarrow> py_error + WillContext" where
  "build_executors p context =
     bind_result (as_dict (dget p ''executors'' (PDict []))) (\<lambda>executors_data.
     let executor_mode = dget executors_data ''mode'' (PStr '''') in
     bind_result
       (if py_eq executor_mode (PStr ''partner_only'') \<and> partner context \<noteq> None
        then (case partner context of
                Some pt \<Rightarrow>
                  Inr (context\<lparr>executors :=
                    [\<lparr>ex_full_name = pt_full_name pt, ex_relationship = PStr ''partner'',
                      ex_address = pt_address pt, ex_phone = pt_phone pt,
                      ex_email = pt_email pt\<rparr>]\<rparr>)
              | None \<Rightarrow> Inr context)
        else if listed_mode executor_mode
        then bind_result (py_iter (dget executors_data ''primary'' (PList []))) (\<lambda>primary.
             bind_result (map_result Executor_from_dict primary) (\<lambda>es.
             Inr (context\<lparr>executors := es\<rparr>)))
        else Inr context) (\<lambda>context1.
     bind_result (as_dict (dget executors_data ''backup'' (PDict []))) (\<lambda>backup_data.
     let backup_mode = dget backup_data ''mode'' (PStr '''') in
     if py_eq backup_mode (PStr ''partner'') \<and> partner context1 \<noteq> None
     then (case partner context1 of
             Some pt \<Rightarrow>
               Inr (context1\<lparr>backup_executors :=
                 [\<lparr>ex_full_name = pt_full_name pt, ex_relationship = PStr ''partner'',
                   ex_address = pt_address pt, ex_phone = PStr '''',
                   ex_email = PStr ''''\<rparr>]\<rparr>)
           | None \<Rightarrow> Inr context1)
     else if listed_mode backup_mode
     then bind_result (py_iter (dget backup_data ''list'' (PList []))) (\<lambda>backup_list.
          bind_result (map_result Executor_from_dict backup_list) (\<lambda>es.
          Inr (context1\<lparr>backup_executors := es\<rparr>)))
     else Inr context1)))"

text \<open>
  \<^verbatim>\<open>if context.has_minor_children and guardianship_data.get('appoint_guardian')\<close>: the
  \<^verbatim>\<open>and\<close> short-circuits, so without minor children the guardianship value is never touched.
\<close>

definition build_guardians :: "(string \<times> pyval) list \<Rightarrow> WillContext \<Rightarrow> py_error + WillContext" where
  "build_guardians p context =
     (let guardianship_data = dget p ''guardianship'' (PDict []) in
      if has_minor_children context
      then bind_result (as_dict guardianship_data) (\<lambda>gd.
           if py_truthy (dget gd ''appoint_guardian'' PNone)
           then bind_result (Guardian_from_dict (dget gd ''guardian'' (PDict []))) (\<lambda>g.
                let context1 = context\<lparr>guardian := Some g, has_guardianship := True\<rparr>;
                    backup_guardian_data = dget gd ''backup_guardian'' (PDict [])
                in if py_truthy backup_guardian_data
                   then bind_result (as_dict backup_guardian_data) (\<lambda>bd.
                        if py_truthy (dget bd ''full_name'' PNone)
                        then bind_result (Guardian_from_dict backup_guardian_data) (\<lambda>bg.
                             Inr (context1\<lparr>backup_guardian := Some bg\<rparr>))
                        else Inr context1)
                   else Inr context1)
           else Inr context)
      else Inr context)"

text \<open>
  The entries appended by the loop over \<^verbatim>\<open>context.beneficiaries\<close>:
  \<^verbatim>\<open>SpecificGift(..., gift_type='cash', cash_amount=b.cash_amount)\<close>,
  \<^verbatim>\<open>SpecificGift(..., gift_type='item', item_description=b.item_description)\<close> and
  \<^verbatim>\<open>ResidueBeneficiary(...)\<close>; the fields not given keep their defaults.
\<close>

definition cash_gift :: "Beneficiary \<Rightarrow> SpecificGift" where
  "cash_gift b =
     \<lparr>sg_beneficiary_id = bn_id b, sg_beneficiary_name = bn_full_name b,
      sg_gift_type = PStr ''cash'', sg_cash_amount = bn_cash_amount b,
      sg_item_description = PStr ''''\<rparr>"

definition item_gift :: "Beneficiary \<Rightarrow> SpecificGift" where
  "item_gift b =
     \<lparr>sg_beneficiary_id = bn_id b, sg_beneficiary_name = bn_full_name b,
      sg_gift_type = PStr ''item'', sg_cash_amount = PNone,
      sg_item_description = bn_item_description b\<rparr>"

definition residue_entry :: "Beneficiary \<Rightarrow> ResidueBeneficiary" where
  "residue_entry b =
     \<lparr>rb_beneficiary_id = bn_id b, rb_beneficiary_name = bn_full_name b,
      rb_share_percent = bn_residue_share_percent b\<rparr>"

text \<open>
  The loop itself: the \<^verbatim>\<open>if\<close>/\<^verbatim>\<open>elif\<close> chain on the gift role, then, for every
  beneficiary whatever its role,
  \<^verbatim>\<open>if b.percentage is not None: context.percentage_sum += b.percentage\<close>.
\<close>

fun extract_gifts :: "Beneficiary list \<Rightarrow> WillContext \<Rightarrow> py_error + WillContext" where
  "extract_gifts [] context = Inr context"
| "extract_gifts (b # rest) context =
     (let context1 =
        (if py_eq (bn_gift_role b) (PStr ''specific_cash'')
         then context\<lparr>specific_gifts := specific_gifts context @ [cash_gift b],
                has_specific_gifts := True\<rparr>
         else if py_eq (bn_gift_role b) (PStr ''specific_item'')
         then context\<lparr>specific_gifts := specific_gifts context @ [item_gift b],
                has_specific_gifts := True\<rparr>
         else if py_eq (bn_gift_role b) (PStr ''residue'')
         then context\<lparr>residue_beneficiaries :=
                  residue_beneficiaries context @ [residue_entry b]\<rparr>
         else context)
      in if bn_percentage b \<noteq> PNone
         then (case py_float_add (percentage_sum context1) (bn_percentage b) of
                 Inl e \<Rightarrow> Inl e
               | Inr s \<Rightarrow> extract_gifts rest (context1\<lparr>percentage_sum := s\<rparr>))
         else extract_gifts rest context1)"

definition build_beneficiaries ::
  "(string \<times> pyval) list \<Rightarrow> WillContext \<Rightarrow> py_error + WillContext" where
  "build_beneficiaries p context =
     bind_result (py_iter (dget p ''beneficiaries'' (PList []))) (\<lambda>beneficiaries_data.
     bind_result (map_result (\<lambda>(i, b). Beneficiary_from_dict b i)
                    (enumerate 0 beneficiaries_data)) (\<lambda>bs.
     bind_result (extract_gifts bs
                    (context\<lparr>beneficiaries := bs, beneficiary_count := length bs\<rparr>))
       (\<lambda>context1.
     Inr (context1\<lparr>has_residue_scheme := (length (residue_beneficiaries context1) > 0),
                     has_percentages := (percentage_sum context1 > 0)\<rparr>))))"

definition build_distribution_settings ::
  "(string \<times> pyval) list \<Rightarrow> WillContext \<Rightarrow> py_error + WillContext" where
  "build_distribution_settings p context =
     bind_result (as_dict (dget p ''distribution'' (PDict []))) (\<lambda>distribution_data.
     bind_result (as_dict (dget p ''survivorship'' (PDict []))) (\<lambda>survivorship_data.
     bind_result (as_dict (dget p ''substitution'' (PDict []))) (\<lambda>substitution_data.
     let rule = dget substitution_data ''rule'' (PStr '''');
         context1 = context\<lparr>distribution_scheme := dget distribution_data ''scheme'' (PStr ''''),
                      survivorship_days := dget survivorship_data ''days'' (PInt 30),
                      substitution_rule := rule,
                      has_substitution := py_truthy rule\<rparr>
     in if py_eq rule (PStr ''to_alternate_beneficiary'')
        then (let alt_id = dget substitution_data ''alternate_beneficiary_id'' PNone;
                  context2 = context1\<lparr>alternate_beneficiary_id := alt_id,
                               has_alternate_beneficiary := True\<rparr>
              in Inr (case find (\<lambda>b. py_eq (bn_id b) alt_id) (beneficiaries context2) of
                        Some b \<Rightarrow> context2\<lparr>alternate_beneficiary_name := bn_full_name b\<rparr>
                      | None \<Rightarrow> context2))
        else Inr context1)))"

definition build_minor_trusts ::
  "(string \<times> pyval) list \<Rightarrow> WillContext \<Rightarrow> py_error + WillContext" where
  "build_minor_trusts p context =
     bind_result (as_dict (dget p ''minor_trusts'' (PDict []))) (\<lambda>minor_trusts_data.
     if py_truthy (dget minor_trusts_data ''enabled'' PNone)
     then (let context1 = context\<lparr>minor_trusts_enabled := True,
                 minor_trusts_vesting_age := dget minor_trusts_data ''vesting_age'' (PInt 18),
                 minor_trusts_trustee_mode := dget minor_trusts_data ''trustee_mode'' (PStr '''')\<rparr>
           in bind_result
                (if py_eq (minor_trusts_trustee_mode context1) (PStr ''named_trustee'')
                 then bind_result
                        (Executor_from_dict (dget minor_trusts_data ''trustee'' (PDict [])))
                        (\<lambda>t. Inr (context1\<lparr>minor_trusts_trustee := Some t\<rparr>))
                 else Inr context1) (\<lambda>context2.
              Inr (context2\<lparr>has_minor_trusts :=
                     (has_minor_children context2 \<or>
                      list_ex (\<lambda>b. py_in (bn_gift_role b)
                                 [PStr ''residue'', PStr ''percentage_only''])
                        (beneficiaries context2))\<rparr>)))
     else Inr context)"

definition toggle_funeral :: "(string \<times> pyval) list \<Rightarrow> WillContext \<Rightarrow> py_error + WillContext" where
  "toggle_funeral toggles_data context =
     bind_result (as_dict (dget toggles_data ''funeral'' (PDict []))) (\<lambda>funeral_data.
     Inr (if py_truthy (dget funeral_data ''enabled'' PNone)
          then context\<lparr>funeral_enabled := True, has_funeral_wishes := True,
                 funeral_preference := dget funeral_data ''preference'' (PStr ''''),
                 funeral_notes := dget funeral_data ''notes'' (PStr '''')\<rparr>
          else context))"

definition toggle_digital_assets ::
  "(string \<times> pyval) list \<Rightarrow> WillContext \<Rightarrow> py_error + WillContext" where
  "toggle_digital_assets toggles_data context =
     bind_result (as_dict (dget toggles_data ''digital_assets'' (PDict [])))
       (\<lambda>digital_assets_data.
     Inr (if py_truthy (dget digital_assets_data ''enabled'' PNone)
          then context\<lparr>digital_assets_enabled := True, has_digital_assets := True,
                 digital_assets_authority := dget digital_assets_data ''authority'' (PBool False),
                 digital_assets_categories := dget digital_assets_data ''categories'' (PList []),
                 digital_assets_instructions_location :=
                   dget digital_assets_data ''instructions_location'' (PStr '''')\<rparr>
          else context))"

definition toggle_pets :: "(string \<times> pyval) list \<Rightarrow> WillContext \<Rightarrow> py_error + WillContext" where
  "toggle_pets toggles_data context =
     bind_result (as_dict (dget toggles_data ''pets'' (PDict []))) (\<lambda>pets_data.
     if py_truthy (dget pets_data ''enabled'' PNone)
     then (let context1 = context\<lparr>pets_enabled := True, has_pets := True,
                 pets_count := dget pets_data ''count'' (PInt 0),
                 pets_summary := dget pets_data ''summary'' (PStr ''''),
                 pets_carer_mode := dget pets_data ''care_person_mode'' (PStr ''''),
                 pets_cash_gift := dget pets_data ''cash_gift'' PNone\<rparr>
           in if py_eq (pets_carer_mode context1) (PStr ''select_beneficiary'')
              then (let care_beneficiary_id = dget pets_data ''care_beneficiary_id'' PNone
                    in Inr (case find (\<lambda>b. py_eq (bn_id b) care_beneficiary_id)
                                   (beneficiaries context1) of
                              Some b \<Rightarrow> context1\<lparr>pets_carer_name := bn_full_name b,
                                          pets_carer_address := bn_address b\<rparr>
                            | None \<Rightarrow> context1))
              else if py_eq (pets_carer_mode context1) (PStr ''new_person'')
              then bind_result (as_dict (dget pets_data ''carer'' (PDict []))) (\<lambda>carer_data.
                   bind_result (Address_from_dict (dget carer_data ''address'' (PDict [])))
                     (\<lambda>addr.
                   Inr (context1\<lparr>pets_carer_name := dget carer_data ''full_name'' (PStr ''''),
                                   pets_carer_address := addr\<rparr>)))
              else Inr context1)
     else Inr context)"

definition toggle_business :: "(string \<times> pyval) list \<Rightarrow> WillContext \<Rightarrow> py_error + WillContext" where
  "toggle_business toggles_data context =
     bind_result (as_dict (dget toggles_data ''business'' (PDict []))) (\<lambda>business_data.
     if py_truthy (dget business_data ''enabled'' PNone)
     then bind_result (py_iter (dget business_data ''interests'' (PList []))) (\<lambda>interests_data.
          bind_result (map_result (\<lambda>i. BusinessInterest_from_dict i (beneficiaries context))
                         interests_data) (\<lambda>bis.
          Inr (context\<lparr>business_enabled := True, has_business_interests := True,
                         business_interests := bis\<rparr>)))
     else Inr context)"

definition toggle_exclusion :: "(string \<times> pyval) list \<Rightarrow> WillContext \<Rightarrow> py_error + WillContext" where
  "toggle_exclusion toggles_data context =
     bind_result (as_dict (dget toggles_data ''exclusion'' (PDict []))) (\<lambda>exclusion_data.
     if py_truthy (dget exclusion_data ''enabled'' PNone)
     then bind_result (py_iter (dget exclusion_data ''exclusions'' (PList []))) (\<lambda>exclusions_list.
          bind_result (map_result Exclusion_from_dict exclusions_list) (\<lambda>xs.
          Inr (context\<lparr>exclusion_enabled := True, has_exclusions := True,
                         exclusions := xs\<rparr>)))
     else Inr context)"

definition toggle_life_sustaining ::
  "(string \<times> pyval) list \<Rightarrow> WillContext \<Rightarrow> py_error + WillContext" where
  "toggle_life_sustaining toggles_data context =
     bind_result (as_dict (dget toggles_data ''life_sustaining'' (PDict [])))
       (\<lambda>life_sustaining_data.
     Inr (if py_truthy (dget life_sustaining_data ''enabled'' PNone)
          then context\<lparr>life_sustaining_enabled := True, has_life_sustaining_statement := True,
                 life_sustaining_template := dget life_sustaining_data ''template'' (PStr ''''),
                 life_sustaining_values := dget life_sustaining_data ''values'' (PList [])\<rparr>
          else context))"

definition build_toggles :: "(string \<times> pyval) list \<Rightarrow> WillContext \<Rightarrow> py_error + WillContext" where
  "build_toggles p context =
     bind_result (as_dict (dget p ''toggles'' (PDict []))) (\<lambda>toggles_data.
     bind_result (toggle_funeral toggles_data context) (\<lambda>c1.
     bind_result (toggle_digital_assets toggles_data c1) (\<lambda>c2.
     bind_result (toggle_pets toggles_data c2) (\<lambda>c3.
     bind_result (toggle_business toggles_data c3) (\<lambda>c4.
     bind_result (toggle_exclusion toggles_data c4) (\<lambda>c5.
     toggle_life_sustaining toggles_data c5))))))"

definition build_final :: "(string \<times> pyval) list \<Rightarrow> WillContext \<Rightarrow> py_error + WillContext" where
  "build_final p context =
     bind_result (as_dict (dget p ''declarations'' (PDict []))) (\<lambda>declarations_data.
     Inr (context\<lparr>assets := dget p ''assets'' (PDict []),
                    intended_signing_date :=
                      dget declarations_data ''intended_signing_date'' PNone,
                    executor_count := length (executors context)\<rparr>))"

definition build_context :: "pyval \<Rightarrow> py_error + WillContext" where
  "build_context payload =
     bind_result (as_dict payload) (\<lambda>p.
     bind_result (build_will_maker p new_WillContext) (\<lambda>c1.
     bind_result (build_partner p c1) (\<lambda>c2.
     bind_result (build_children p c2) (\<lambda>c3.
     bind_result (build_other_dependants p c3) (\<lambda>c4.
     bind_result (build_executors p c4) (\<lambda>c5.
     bind_result (build_guardians p c5) (\<lambda>c6.
     bind_result (build_beneficiaries p c6) (\<lambda>c7.
     bind_result (build_distribution_settings p c7) (\<lambda>c8.
     bind_result (build_minor_trusts p c8) (\<lambda>c9.
     bind_result (build_toggles p c9) (\<lambda>c10.
     build_final p c10)))))))))))"

section \<open>Clause selection (clause\_logic.py)\<close>

text \<open>
  \<^verbatim>\<open>class ClauseId(str, Enum)\<close>: a clause id is a string, and the members compare equal
  to their values, so a caller may pass any string where a clause id is expected.
\<close>

type_synonym ClauseId = string

definition TITLE_IDENTIFICATION :: ClauseId where "TITLE_IDENTIFICATION = ''title_identification''"
definition REVOCATION :: ClauseId where "REVOCATION = ''revocation''"
definition DEFINITIONS :: ClauseId where "DEFINITIONS = ''definitions''"
definition APPOINTMENT_EXECUTORS_TRUSTEES :: ClauseId where
  "APPOINTMENT_EXECUTORS_TRUSTEES = ''appointment_executors_trustees''"
definition FUNERAL_WISHES :: ClauseId where "FUNERAL_WISHES = ''funeral_wishes''"
definition GUARDIANSHIP :: ClauseId where "GUARDIANSHIP = ''guardianship''"
definition DISTRIBUTION_OVERVIEW :: ClauseId where "DISTRIBUTION_OVERVIEW = ''distribution_overview''"
definition SPECIFIC_GIFTS :: ClauseId where "SPECIFIC_GIFTS = ''specific_gifts''"
definition RESIDUE_DISTRIBUTION :: ClauseId where "RESIDUE_DISTRIBUTION = ''residue_distribution''"
definition SURVIVORSHIP :: ClauseId where "SURVIVORSHIP = ''survivorship''"
definition SUBSTITUTION :: ClauseId where "SUBSTITUTION = ''substitution''"
definition MINOR_TRUSTS :: ClauseId where "MINOR_TRUSTS = ''minor_trusts''"
definition ADMINISTRATIVE_POWERS :: ClauseId where "ADMINISTRATIVE_POWERS = ''administrative_powers''"
definition DIGITAL_ASSETS :: ClauseId where "DIGITAL_ASSETS = ''digital_assets''"
definition PETS :: ClauseId where "PETS = ''pets''"
definition BUSINESS_INTERESTS :: ClauseId where "BUSINESS_INTERESTS = ''business_interests''"
definition EXCLUSION_NOTE :: ClauseId where "EXCLUSION_NOTE = ''exclusion_note''"
definition LIFE_SUSTAINING_STATEMENT :: ClauseId where
  "LIFE_SUSTAINING_STATEMENT = ''life_sustaining_statement''"
definition ATTESTATION :: ClauseId where "ATTESTATION = ''attestation''"

text \<open>Fixed clause order.\<close>

definition CLAUSE_ORDER :: "ClauseId list" where
  "CLAUSE_ORDER =
    [TITLE_IDENTIFICATION, REVOCATION, DEFINITIONS, APPOINTMENT_EXECUTORS_TRUSTEES,
     FUNERAL_WISHES, GUARDIANSHIP, DISTRIBUTION_OVERVIEW, SPECIFIC_GIFTS,
     RESIDUE_DISTRIBUTION, SURVIVORSHIP, SUBSTITUTION, MINOR_TRUSTS,
     ADMINISTRATIVE_POWERS, DIGITAL_ASSETS, PETS, BUSINESS_INTERESTS,
     EXCLUSION_NOTE, LIFE_SUSTAINING_STATEMENT, ATTESTATION]"

record ClauseDependency =
  clause_id :: ClauseId
  required_flags :: "string list"
  conflicting_clauses :: "ClauseId list option"
  dep_notes :: string

definition dependency :: "ClauseId \<Rightarrow> string list \<Rightarrow> string \<Rightarrow> ClauseDependency" where
  "dependency c fs n =
     \<lparr>clause_id = c, required_flags = fs, conflicting_clauses = None, dep_notes = n\<rparr>"

text \<open>The dictionary \<^verbatim>\<open>CLAUSE_DEPENDENCIES\<close>, in the order of the source.\<close>

definition CLAUSE_DEPENDENCIES :: "(ClauseId \<times> ClauseDependency) list" where
  "CLAUSE_DEPENDENCIES =
    [(TITLE_IDENTIFICATION, dependency TITLE_IDENTIFICATION [] ''Always included''),
     (REVOCATION, dependency REVOCATION [] ''Always included''),
     (DEFINITIONS, dependency DEFINITIONS [] ''Always included''),
     (APPOINTMENT_EXECUTORS_TRUSTEES, dependency APPOINTMENT_EXECUTORS_TRUSTEES []
        ''Always included - every will needs executors''),
     (FUNERAL_WISHES, dependency FUNERAL_WISHES [''has_funeral_wishes'']
        ''Only if funeral wishes toggle is enabled''),
     (GUARDIANSHIP, dependency GUARDIANSHIP [''has_guardianship'']
        ''Only if minor children exist and guardian is appointed''),
     (DISTRIBUTION_OVERVIEW, dependency DISTRIBUTION_OVERVIEW []
        ''Included for complex distribution schemes''),
     (SPECIFIC_GIFTS, dependency SPECIFIC_GIFTS [''has_specific_gifts'']
        ''Only if specific gifts exist''),
     (RESIDUE_DISTRIBUTION, dependency RESIDUE_DISTRIBUTION []
        ''Always included - every will has residue''),
     (SURVIVORSHIP, dependency SURVIVORSHIP [] ''Always included''),
     (SUBSTITUTION, dependency SUBSTITUTION [''has_substitution'']
        ''Only if substitution rule is configured''),
     (MINOR_TRUSTS, dependency MINOR_TRUSTS [''has_minor_trusts'']
        ''Only if minor trusts are enabled and applicable''),
     (ADMINISTRATIVE_POWERS, dependency ADMINISTRATIVE_POWERS [] ''Always included''),
     (DIGITAL_ASSETS, dependency DIGITAL_ASSETS [''has_digital_assets'']
        ''Only if digital assets toggle is enabled''),
     (PETS, dependency PETS [''has_pets''] ''Only if pets toggle is enabled''),
     (BUSINESS_INTERESTS, dependency BUSINESS_INTERESTS [''has_business_interests'']
        ''Only if business interests toggle is enabled''),
     (EXCLUSION_NOTE, dependency EXCLUSION_NOTE [''has_exclusions'']
        ''Only if exclusion toggle is enabled''),
     (LIFE_SUSTAINING_STATEMENT, dependency LIFE_SUSTAINING_STATEMENT
        [''has_life_sustaining_statement''] ''Only if life sustaining toggle is enabled''),
     (ATTESTATION, dependency ATTESTATION [] ''Always included - must be last'')]"

definition get_context_flags :: "WillContext \<Rightarrow> (string \<times> bool) list" where
  "get_context_flags context =
    [(''has_partner'', has_partner context),
     (''has_children'', has_children context),
     (''has_minor_children'', has_minor_children context),
     (''has_guardianship'', has_guardianship context),
     (''has_specific_gifts'', has_specific_gifts context),
     (''has_residue_scheme'', has_residue_scheme context),
     (''has_percentages'', has_percentages context),
     (''has_exclusions'', has_exclusions context),
     (''has_digital_assets'', has_digital_assets context),
     (''has_pets'', has_pets context),
     (''has_business_interests'', has_business_interests context),
     (''has_funeral_wishes'', has_funeral_wishes context),
     (''has_life_sustaining_statement'', has_life_sustaining_statement context),
     (''has_minor_trusts'', has_minor_trusts context),
     (''has_substitution'', has_substitution context),
     (''has_alternate_beneficiary'', has_alternate_beneficiary context)]"

text \<open>
  The loop of \<^verbatim>\<open>check_clause_dependencies\<close> over the required flags:
  \<^verbatim>\<open>flags.get(flag_name, False)\<close> with an early \<^verbatim>\<open>return False\<close>.
\<close>

fun check_required_flags :: "(string \<times> bool) list \<Rightarrow> string list \<Rightarrow> bool" where
  "check_required_flags flags [] = True"
| "check_required_flags flags (flag_name # rest) =
     (if \<not> (case map_of flags flag_name of Some b \<Rightarrow> b | None \<Rightarrow> False) then False
      else check_required_flags flags rest)"

definition check_clause_dependencies :: "ClauseId \<Rightarrow> WillContext \<Rightarrow> bool" where
  "check_clause_dependencies cid context =
     (case map_of CLAUSE_DEPENDENCIES cid of
        None \<Rightarrow> False
      | Some dep \<Rightarrow>
          if required_flags dep = [] then True
          else check_required_flags (get_context_flags context) (required_flags dep))"

text \<open>The loop of \<^verbatim>\<open>select_clauses\<close>, appending to \<^verbatim>\<open>selected\<close>.\<close>

fun select_loop :: "WillContext \<Rightarrow> ClauseId list \<Rightarrow> ClauseId list \<Rightarrow> ClauseId list" where
  "select_loop context selected [] = selected"
| "select_loop context selected (cid # rest) =
     (if check_clause_dependencies cid context
      then select_loop context (selected @ [cid]) rest
      else select_loop context selected rest)"

definition select_clauses :: "WillContext \<Rightarrow> ClauseId list" where
  "select_clauses context = select_loop context [] CLAUSE_ORDER"

text \<open>\<^verbatim>\<open>list.index\<close>: the first position of an element, \<open>None\<close> for ValueError.\<close>

fun index_of :: "'a list \<Rightarrow> 'a \<Rightarrow> nat option" where
  "index_of [] y = None"
| "index_of (x # xs) y =
     (if x = y then Some 0 else map_option Suc (index_of xs y))"

text \<open>The loop of \<^verbatim>\<open>validate_clause_order\<close>; \<^verbatim>\<open>last_index\<close> starts at \<open>-1\<close>.\<close>

fun validate_loop :: "int \<Rightarrow> ClauseId list \<Rightarrow> bool" where
  "validate_loop last_index [] = True"
| "validate_loop last_index (clause # rest) =
     (case index_of CLAUSE_ORDER clause of
        None \<Rightarrow> False
      | Some current_index \<Rightarrow>
          if int current_index \<le> last_index then False
          else validate_loop (int current_index) rest)"

definition validate_clause_order :: "ClauseId list \<Rightarrow> bool" where
  "validate_clause_order clauses = validate_loop (- 1) clauses"

text \<open>
  A clause that is present exactly when its flag is set: the contribution of one optional
  clause to the selected list.
\<close>

definition optional_clause :: "bool \<Rightarrow> ClauseId \<Rightarrow> ClauseId list" where
  "optional_clause b c = (if b then [c] else [])"



text \<open>
  The three lists that the projection of the beneficiaries fills, and the property that a
  block of \<^verbatim>\<open>build_context\<close> leaves them as they are.
\<close>

definition gift_lists ::
  "WillContext \<Rightarrow> Beneficiary list \<times> SpecificGift list \<times> ResidueBeneficiary list" where
  "gift_lists c = (beneficiaries c, specific_gifts c, residue_beneficiaries c)"

definition frame_ok :: "WillContext \<Rightarrow> py_error + WillContext \<Rightarrow> bool" where
  "frame_ok c r = (case r of Inl e \<Rightarrow> True | Inr c' \<Rightarrow> gift_lists c' = gift_lists c)"

text \<open>A payload with one beneficiary of each gift role.\<close>

definition example_payload :: pyval where
  "example_payload = PDict [(''beneficiaries'', PList
     [PDict [(''id'', PStr ''b1''), (''full_name'', PStr ''Ann''),
             (''gift_role'', PStr ''specific_cash''), (''cash_amount'', PInt 1000)],
      PDict [(''full_name'', PStr ''Bob''), (''gift_role'', PStr ''residue''),
             (''residue_share_percent'', PInt 50), (''percentage'', PInt 50)],
      PDict [(''full_name'', PStr ''Cy''), (''gift_role'', PStr ''specific_item''),
             (''item_description'', PStr ''watch'')],
      PDict [(''full_name'', PStr ''Di''), (''gift_role'', PStr ''percentage_only''),
             (''percentage'', PInt 30)]])]"

section \<open>The attestation clause (clause\_renderer.py)\<close>

text \<open>
  \<^verbatim>\<open>ContentBlock\<close>: the content is a string for a paragraph and a dictionary for a
  signature block.
\<close>

record ContentBlock =
  cb_type :: string
  cb_content :: pyval
  cb_style :: string
  cb_indent_level :: int

definition render_attestation :: "WillContext \<Rightarrow> ContentBlock list" where
  "render_attestation context =
     [\<lparr>cb_type = ''paragraph'',
       cb_content = PStr ''SIGNED by the Testator as their Last Will and Testament:'',
       cb_style = ''normal'', cb_indent_level = 0\<rparr>,
      \<lparr>cb_type = ''signature_block'',
       cb_content = PDict [(''label'', PStr ''Signature of Will Maker''),
                           (''name'', wm_full_name (will_maker context)),
                           (''date_label'', PStr ''Date''),
                           (''lines'', PInt 3)],
       cb_style = ''signature'', cb_indent_level = 0\<rparr>,
      \<lparr>cb_type = ''paragraph'',
       cb_content = PStr (''SIGNED by the above-named Testator in our presence '' @
         ''and attested by us in the presence of the Testator and each other.''),
       cb_style = ''normal'', cb_indent_level = 0\<rparr>,
      \<lparr>cb_type = ''signature_block'',
       cb_content = PDict [(''label'', PStr ''Witness 1''),
                           (''name_label'', PStr ''Name (print)''),
                           (''address_label'', PStr ''Address''),
                           (''occupation_label'', PStr ''Occupation''),
                           (''date_label'', PStr ''Date''),
                           (''lines'', PInt 4)],
       cb_style = ''signature'', cb_indent_level = 0\<rparr>,
      \<lparr>cb_type = ''signature_block'',
       cb_content = PDict [(''label'', PStr ''Witness 2''),
                           (''name_label'', PStr ''Name (print)''),
                           (''address_label'', PStr ''Address''),
                           (''occupation_label'', PStr ''Occupation''),
                           (''date_label'', PStr ''Date''),
                           (''lines'', PInt 4)],
       cb_style = ''signature'', cb_indent_level = 0\<rparr>]"

section \<open>Integrity check (pdf\_generator.py)\<close>

text \<open>
  \<^verbatim>\<open>verify_pdf_integrity\<close>. The digest
  \<^verbatim>\<open>hashlib.sha256(b).hexdigest()\<close> is a function of the standard library, taken as
  a parameter; the expected hash is whatever value the caller passes.
\<close>

definition verify_pdf_integrity :: "(string \<Rightarrow> string) \<Rightarrow> string \<Rightarrow> pyval \<Rightarrow> bool" where
  "verify_pdf_integrity sha256_hexdigest pdf_bytes expected_hash =
     (let actual_hash = sha256_hexdigest pdf_bytes in py_eq (PStr actual_hash) expected_hash)"


section \<open>Compiling the document (pdf\_generator.py)\<close>

text \<open>
  A naive \<^verbatim>\<open>datetime\<close> (no \<^verbatim>\<open>tzinfo\<close>), which
  \<^verbatim>\<open>format_timestamp_for_footer\<close> takes as UTC.
\<close>

record datetime =
  dt_year :: nat
  dt_month :: nat
  dt_day :: nat
  dt_hour :: nat
  dt_minute :: nat
  dt_second :: nat
  dt_microsecond :: nat

text \<open>The \<^verbatim>\<open>strftime\<close> directives \<^verbatim>\<open>%d %H %I %M\<close> (two digits) and \<^verbatim>\<open>%B\<close>.\<close>

definition pad2 :: "nat \<Rightarrow> string" where
  "pad2 n = (if n < 10 then ''0'' @ str_of_nat n else str_of_nat n)"

definition month_name :: "nat \<Rightarrow> string" where
  "month_name m =
     [''January'', ''February'', ''March'', ''April'', ''May'', ''June'', ''July'',
      ''August'', ''September'', ''October'', ''November'', ''December''] ! (m - 1)"

text \<open>
  \<^verbatim>\<open>format_timestamp_for_footer\<close>. The conversion to the display time zone,
  \<^verbatim>\<open>timestamp.replace(tzinfo=ZoneInfo('UTC')).astimezone(ZoneInfo(timezone))\<close>, is the
  standard library's, over the time zone database of the system; it is the parameter
  \<open>zone\<close>: \<open>zone t\<close> is the pair of the local date and time of the UTC timestamp \<open>t\<close> and
  of the abbreviation that \<^verbatim>\<open>%Z\<close> prints for it, and \<open>None\<close> when
  \<^verbatim>\<open>ZoneInfo\<close> or \<^verbatim>\<open>astimezone\<close> raises (no time zone database, or a local
  time after the last \<^verbatim>\<open>datetime\<close>): the \<^verbatim>\<open>except\<close> branch then formats the
  timestamp as UTC. Both formats stop at the minute.
\<close>

definition format_timestamp_for_footer ::
  "(datetime \<Rightarrow> (datetime \<times> string) option) \<Rightarrow> datetime option \<Rightarrow> string" where
  "format_timestamp_for_footer zone timestamp =
     (case timestamp of
        None \<Rightarrow> ''''
      | Some t \<Rightarrow>
          (case zone t of
             Some (local_time, zone_name) \<Rightarrow>
               pad2 (dt_day local_time) @ '' '' @ month_name (dt_month local_time) @ '' '' @
               str_of_nat (dt_year local_time) @ '' at '' @
               pad2 (if dt_hour local_time mod 12 = 0 then 12 else dt_hour local_time mod 12) @
               '':'' @ pad2 (dt_minute local_time) @ '' '' @
               (if dt_hour local_time < 12 then ''AM'' else ''PM'') @ '' '' @ zone_name
           | None \<Rightarrow>
               pad2 (dt_day t) @ '' '' @ month_name (dt_month t) @ '' '' @
               str_of_nat (dt_year t) @ '' '' @ pad2 (dt_hour t) @ '':'' @
               pad2 (dt_minute t) @ '' UTC''))"

text \<open>\<^verbatim>\<open>short_hash\<close> (utils.py).\<close>

definition short_hash :: "string \<Rightarrow> nat \<Rightarrow> string" where
  "short_hash full_hash n = (if full_hash = [] then '''' else take n full_hash)"

text \<open>
  The page callbacks, as the calls they make on the canvas for a page number
  (\<^verbatim>\<open>doc.page\<close>). Lengths are in points, \<^verbatim>\<open>mm\<close> being 72/25.4 points, as
  exact rationals.
\<close>

datatype canvas_call =
    SaveState
  | SetFont string nat
  | SetFillColor string
  | DrawString rat rat string
  | DrawRightString rat rat string
  | RestoreState

definition mm :: rat where "mm = 360 / 127"
definition PAGE_WIDTH :: rat where "PAGE_WIDTH = 210 * mm"
definition PAGE_HEIGHT :: rat where "PAGE_HEIGHT = 297 * mm"
definition MARGIN_LEFT :: rat where "MARGIN_LEFT = 25 * mm"
definition MARGIN_RIGHT :: rat where "MARGIN_RIGHT = 25 * mm"
definition MARGIN_TOP :: rat where "MARGIN_TOP = 20 * mm"
definition MARGIN_BOTTOM :: rat where "MARGIN_BOTTOM = 30 * mm"

definition simple_footer :: "nat \<Rightarrow> canvas_call list" where
  "simple_footer page =
     [SaveState, SetFont ''Times-Roman'' 8, SetFillColor ''grey'',
      DrawRightString (PAGE_WIDTH - MARGIN_RIGHT) (15 * mm) (''Page '' @ str_of_nat page),
      RestoreState]"

definition create_full_footer_callback ::
  "(datetime \<Rightarrow> (datetime \<times> string) option) \<Rightarrow> datetime \<Rightarrow> string \<Rightarrow> nat \<Rightarrow>
   canvas_call list" where
  "create_full_footer_callback zone generation_timestamp content_hash page =
     (let formatted_time = format_timestamp_for_footer zone (Some generation_timestamp);
          short_hash_str = short_hash content_hash 16;
          footer_text = ''Generated: '' @ formatted_time @ '' | Hash: '' @ short_hash_str
      in [SaveState, SetFont ''Times-Roman'' 8, SetFillColor ''#666666'',
          DrawString MARGIN_LEFT (15 * mm) footer_text,
          DrawRightString (PAGE_WIDTH - MARGIN_RIGHT) (15 * mm) (''Page '' @ str_of_nat page),
          RestoreState])"

text \<open>The arguments of \<^verbatim>\<open>SimpleDocTemplate\<close>.\<close>

record doc_settings =
  ds_pagesize :: "rat \<times> rat"
  ds_leftMargin :: rat
  ds_rightMargin :: rat
  ds_topMargin :: rat
  ds_bottomMargin :: rat
  ds_title :: string
  ds_author :: string
  ds_creator :: string
  ds_creationDate :: datetime
  ds_modDate :: datetime

definition doc_template :: "datetime \<Rightarrow> doc_settings" where
  "doc_template generation_timestamp =
     \<lparr>ds_pagesize = (PAGE_WIDTH, PAGE_HEIGHT), ds_leftMargin = MARGIN_LEFT,
      ds_rightMargin = MARGIN_RIGHT, ds_topMargin = MARGIN_TOP,
      ds_bottomMargin = MARGIN_BOTTOM, ds_title = ''Last Will and Testament'',
      ds_author = ''Will Generator'', ds_creator = ''Will Generator'',
      ds_creationDate = generation_timestamp, ds_modDate = generation_timestamp\<rparr>"

text \<open>
  \<^verbatim>\<open>DocumentPlanItem\<close> (clause\_renderer.py) and the flowables that the compiler
  makes; a paragraph is its text and the key of its style.
\<close>

record DocumentPlanItem =
  pi_id :: string
  pi_title :: string
  pi_numbering_level :: int
  pi_content_blocks :: "ContentBlock list"
  pi_clause_number :: int

datatype flowable =
    Paragraph string string
  | Spacer nat nat
  | PageBreak
  | SignatureBlock pyval

text \<open>\<^verbatim>\<open>str(n)\<close> for an integer, as in \<^verbatim>\<open>f"{item.clause_number}. {item.title}"\<close>.\<close>

definition str_of_int :: "int \<Rightarrow> string" where
  "str_of_int n = (if n < 0 then ''-'' @ str_of_nat (nat (- n)) else str_of_nat (nat n))"

text \<open>
  \<^verbatim>\<open>_render_clause_to_elements\<close>: the heading, the elements of the content blocks and
  the spacing. The element of a block, \<^verbatim>\<open>_render_content_block(block, styles)\<close>, is the
  parameter \<open>render_content_block\<close>, with \<open>None\<close> for a block that gives no element.
\<close>

definition render_clause_to_elements ::
  "(ContentBlock \<Rightarrow> flowable option) \<Rightarrow> DocumentPlanItem \<Rightarrow> WillContext \<Rightarrow> flowable list" where
  "render_clause_to_elements render_content_block item context =
     (let heading_text = str_of_int (pi_clause_number item) @ ''. '' @ pi_title item
      in [Paragraph heading_text ''clause_heading'']
         @ List.map_filter render_content_block (pi_content_blocks item)
         @ [Spacer 1 12])"

text \<open>
  \<^verbatim>\<open>generate_pdf_with_footer\<close>, for a given timestamp (the default, the clock, is not
  modelled). The typesetting library and the digest are outside the repository and are
  parameters: \<open>build settings story callback\<close> is the content of the buffer after
  \<^verbatim>\<open>SimpleDocTemplate(buffer, ...).build(story, onFirstPage=callback, onLaterPages=callback)\<close>,
  and \<open>sha256_hexdigest\<close> is \<^verbatim>\<open>hashlib.sha256(b).hexdigest()\<close>.
\<close>

definition generate_pdf_with_footer ::
  "(doc_settings \<Rightarrow> flowable list \<Rightarrow> (nat \<Rightarrow> canvas_call list) \<Rightarrow> string) \<Rightarrow>
   (string \<Rightarrow> string) \<Rightarrow> (datetime \<Rightarrow> (datetime \<times> string) option) \<Rightarrow>
   (ContentBlock \<Rightarrow> flowable option) \<Rightarrow>
   WillContext \<Rightarrow> DocumentPlanItem list \<Rightarrow> datetime \<Rightarrow> string \<times> string" where
  "generate_pdf_with_footer build sha256_hexdigest zone render_content_block
       context document_plan generation_timestamp =
     (let story = concat (map (\<lambda>item. render_clause_to_elements render_content_block item context)
                    document_plan);
          pdf_bytes_temp = build (doc_template generation_timestamp) story simple_footer;
          content_hash = sha256_hexdigest pdf_bytes_temp;
          story2 = concat (map (\<lambda>item. render_clause_to_elements render_content_block item context)
                    document_plan);
          footer_callback =
            create_full_footer_callback zone generation_timestamp content_hash;
          pdf_bytes = build (doc_template generation_timestamp) story2 footer_callback;
          final_hash = sha256_hexdigest pdf_bytes
      in (pdf_bytes, final_hash))"

text \<open>
  Invariant mode, as far as the timestamp goes: the bytes that the library writes do not
  depend on the creation and modification dates it is given.
\<close>

definition ignores_dates ::
  "(doc_settings \<Rightarrow> flowable list \<Rightarrow> (nat \<Rightarrow> canvas_call list) \<Rightarrow> string) \<Rightarrow> bool" where
  "ignores_dates build =
     (\<forall>settings d1 d2 story callback.
        build (settings\<lparr>ds_creationDate := d1, ds_modDate := d2\<rparr>) story callback =
        build settings story callback)"

text \<open>
  A typesetting library for the examples. Like ReportLab it begins no page for an empty
  story, so that no page callback runs; for a story that is not empty it writes the text
  of the paragraphs and then the strings that the page callback draws on page 1.
\<close>

fun drawn_text :: "canvas_call \<Rightarrow> string" where
  "drawn_text (DrawString x y s) = s"
| "drawn_text (DrawRightString x y s) = s"
| "drawn_text _ = []"

fun flowable_text :: "flowable \<Rightarrow> string" where
  "flowable_text (Paragraph s style) = s"
| "flowable_text _ = []"

definition one_page_text ::
  "doc_settings \<Rightarrow> flowable list \<Rightarrow> (nat \<Rightarrow> canvas_call list) \<Rightarrow> string" where
  "one_page_text settings story callback =
     (if story = [] then []
      else concat (map flowable_text story) @ concat (map drawn_text (callback 1)))"

text \<open>
  A time zone for the examples: ten hours ahead of UTC under the name AEST, which is
  \<^verbatim>\<open>ZoneInfo('Australia/Brisbane')\<close> for the timestamps of 2024 used below (Queensland
  has kept this offset, without daylight saving, since March 1992). A local time after
  the year 9999 raises OverflowError.
\<close>

definition is_leap :: "nat \<Rightarrow> bool" where
  "is_leap y = ((y mod 4 = 0 \<and> y mod 100 \<noteq> 0) \<or> y mod 400 = 0)"

definition days_in_month :: "nat \<Rightarrow> nat \<Rightarrow> nat" where
  "days_in_month y m =
     (if m = 2 then (if is_leap y then 29 else 28)
      else if m = 4 \<or> m = 6 \<or> m = 9 \<or> m = 11 then 30 else 31)"

definition ten_hours_later :: "datetime \<Rightarrow> datetime" where
  "ten_hours_later t =
     (let h = dt_hour t + 10 in
      if h < 24 then t\<lparr>dt_hour := h\<rparr>
      else if dt_day t < days_in_month (dt_year t) (dt_month t)
      then t\<lparr>dt_hour := h - 24, dt_day := dt_day t + 1\<rparr>
      else if dt_month t < 12
      then t\<lparr>dt_hour := h - 24, dt_day := 1, dt_month := dt_month t + 1\<rparr>
      else t\<lparr>dt_hour := h - 24, dt_day := 1, dt_month := 1, dt_year := dt_year t + 1\<rparr>)"

definition aest :: "datetime \<Rightarrow> (datetime \<times> string) option" where
  "aest t =
     (let local_time = ten_hours_later t in
      if dt_year local_time > 9999 then None else Some (local_time, ''AEST''))"

text \<open>
  The timestamp of the repository's determinism test, 25 December 2024 at 10:00:00, moved
  to the given minute and second.
\<close>

definition christmas_10 :: "nat \<Rightarrow> nat \<Rightarrow> datetime" where
  "christmas_10 m s =
     \<lparr>dt_year = 2024, dt_month = 12, dt_day = 25, dt_hour = 10, dt_minute = m, dt_second = s,
      dt_microsecond = 0\<rparr>"

text \<open>A plan of one clause that has no content block.\<close>

definition heading_only_plan :: "DocumentPlanItem list" where
  "heading_only_plan =
     [\<lparr>pi_id = ''attestation'', pi_title = ''Attestation'', pi_numbering_level = 1,
       pi_content_blocks = [], pi_clause_number = 1\<rparr>]"


section \<open>Payload shapes\<close>

text \<open>
  The shapes that \<^verbatim>\<open>build_context\<close> relies on. A section of the payload is a
  dictionary; an entity is a dictionary whose \<^verbatim>\<open>address\<close>, when present and not empty, is
  a dictionary, or a false value (None, an empty dictionary, ...), which
  \<^verbatim>\<open>from_dict\<close> turns into the default entity; a collection is a list of entities; a
  percentage is None or a number that fits a float.
\<close>

fun is_dict :: "pyval \<Rightarrow> bool" where
  "is_dict (PDict d) = True"
| "is_dict _ = False"

definition dict_or_falsy :: "pyval \<Rightarrow> bool" where
  "dict_or_falsy v = (\<not> py_truthy v \<or> is_dict v)"

definition entity_ok :: "pyval \<Rightarrow> bool" where
  "entity_ok v =
     (\<not> py_truthy v \<or>
      (case v of PDict d \<Rightarrow> dict_or_falsy (dget d ''address'' (PDict [])) | _ \<Rightarrow> False))"

fun list_of :: "(pyval \<Rightarrow> bool) \<Rightarrow> pyval \<Rightarrow> bool" where
  "list_of P (PList xs) = list_all P xs"
| "list_of P _ = False"

fun number_or_none :: "pyval \<Rightarrow> bool" where
  "number_or_none PNone = True"
| "number_or_none (PBool b) = True"
| "number_or_none (PInt n) = (\<bar>n\<bar> < 2 ^ 1024 - 2 ^ 970)"
| "number_or_none (PFloat r) = True"
| "number_or_none _ = False"

definition beneficiary_ok :: "pyval \<Rightarrow> bool" where
  "beneficiary_ok v =
     (entity_ok v \<and>
      (case v of PDict d \<Rightarrow> number_or_none (dget d ''percentage'' PNone) | _ \<Rightarrow> True))"

definition interest_ok :: "pyval \<Rightarrow> bool" where
  "interest_ok v =
     (\<not> py_truthy v \<or>
      (case v of
         PDict d \<Rightarrow>
           (case dget d ''recipient'' (PDict []) of
              PDict r \<Rightarrow> dict_or_falsy (dget r ''address'' (PDict []))
            | _ \<Rightarrow> False)
       | _ \<Rightarrow> False))"

definition dependants_ok :: "(string \<times> pyval) list \<Rightarrow> bool" where
  "dependants_ok p =
     (case dget p ''dependants'' (PDict []) of
        PDict dd \<Rightarrow> list_of dict_or_falsy (dget dd ''other_dependants'' (PList []))
      | _ \<Rightarrow> False)"

definition executors_ok :: "(string \<times> pyval) list \<Rightarrow> bool" where
  "executors_ok p =
     (case dget p ''executors'' (PDict []) of
        PDict ed \<Rightarrow>
          list_of entity_ok (dget ed ''primary'' (PList [])) \<and>
          (case dget ed ''backup'' (PDict []) of
             PDict bd \<Rightarrow> list_of entity_ok (dget bd ''list'' (PList []))
           | _ \<Rightarrow> False)
      | _ \<Rightarrow> False)"

definition guardianship_ok :: "(string \<times> pyval) list \<Rightarrow> bool" where
  "guardianship_ok p =
     (case dget p ''guardianship'' (PDict []) of
        PDict gd \<Rightarrow>
          entity_ok (dget gd ''guardian'' (PDict [])) \<and>
          entity_ok (dget gd ''backup_guardian'' (PDict []))
      | _ \<Rightarrow> False)"

definition settings_ok :: "(string \<times> pyval) list \<Rightarrow> bool" where
  "settings_ok p =
     (is_dict (dget p ''distribution'' (PDict [])) \<and>
      is_dict (dget p ''survivorship'' (PDict [])) \<and>
      is_dict (dget p ''substitution'' (PDict [])))"

definition minor_trusts_ok :: "(string \<times> pyval) list \<Rightarrow> bool" where
  "minor_trusts_ok p =
     (case dget p ''minor_trusts'' (PDict []) of
        PDict md \<Rightarrow> entity_ok (dget md ''trustee'' (PDict []))
      | _ \<Rightarrow> False)"

definition pets_ok :: "(string \<times> pyval) list \<Rightarrow> bool" where
  "pets_ok t =
     (case dget t ''pets'' (PDict []) of
        PDict pd \<Rightarrow>
          (case dget pd ''carer'' (PDict []) of
             PDict cd \<Rightarrow> dict_or_falsy (dget cd ''address'' (PDict []))
           | _ \<Rightarrow> False)
      | _ \<Rightarrow> False)"

definition business_ok :: "(string \<times> pyval) list \<Rightarrow> bool" where
  "business_ok t =
     (case dget t ''business'' (PDict []) of
        PDict bd \<Rightarrow> list_of interest_ok (dget bd ''interests'' (PList []))
      | _ \<Rightarrow> False)"

definition exclusion_ok :: "(string \<times> pyval) list \<Rightarrow> bool" where
  "exclusion_ok t =
     (case dget t ''exclusion'' (PDict []) of
        PDict xd \<Rightarrow> list_of dict_or_falsy (dget xd ''exclusions'' (PList []))
      | _ \<Rightarrow> False)"

definition toggles_ok :: "(string \<times> pyval) list \<Rightarrow> bool" where
  "toggles_ok p =
     (case dget p ''toggles'' (PDict []) of
        PDict t \<Rightarrow>
          is_dict (dget t ''funeral'' (PDict [])) \<and>
          is_dict (dget t ''digital_assets'' (PDict [])) \<and>
          pets_ok t \<and> business_ok t \<and> exclusion_ok t \<and>
          is_dict (dget t ''life_sustaining'' (PDict []))
      | _ \<Rightarrow> False)"

definition well_shaped :: "(string \<times> pyval) list \<Rightarrow> bool" where
  "well_shaped p =
     (entity_ok (dget p ''will_maker'' (PDict [])) \<and>
      entity_ok (dget p ''partner'' (PDict [])) \<and>
      list_of dict_or_falsy (dget p ''children'' (PList [])) \<and>
      dependants_ok p \<and> executors_ok p \<and> guardianship_ok p \<and>
      list_of beneficiary_ok (dget p ''beneficiaries'' (PList [])) \<and>
      settings_ok p \<and> minor_trusts_ok p \<and> toggles_ok p \<and>
      is_dict (dget p ''declarations'' (PDict [])))"

text \<open>A computation that returns a value rather than raising.\<close>

definition returns :: "py_error + 'a \<Rightarrow> bool" where
  "returns r = (case r of Inl e \<Rightarrow> False | Inr v \<Rightarrow> True)"

text \<open>A payload of the expected shape, with several sections filled.\<close>

definition sample_fields :: "(string \<times> pyval) list" where
  "sample_fields =
     [(''will_maker'', PDict [(''full_name'', PStr ''Pat''),
                              (''relationship_status'', PStr ''married''),
                              (''address'', PDict [(''street'', PStr ''1 High St'')])]),
      (''partner'', PDict [(''full_name'', PStr ''Sam'')]),
      (''has_children'', PBool True),
      (''children'', PList [PDict [(''full_name'', PStr ''Kim''),
                                   (''is_expected_to_be_minor_at_death'', PBool True)]]),
      (''executors'', PDict [(''mode'', PStr ''partner_only'')]),
      (''guardianship'', PDict [(''appoint_guardian'', PBool True),
                                (''guardian'', PDict [(''full_name'', PStr ''Lee'')])]),
      (''beneficiaries'', PList
         [PDict [(''id'', PStr ''b1''), (''full_name'', PStr ''Ann''),
                 (''gift_role'', PStr ''specific_cash''), (''cash_amount'', PInt 1000)],
          PDict [(''full_name'', PStr ''Bob''), (''gift_role'', PStr ''residue''),
                 (''residue_share_percent'', PInt 100)]]),
      (''toggles'', PDict [(''pets'', PDict [(''enabled'', PBool True),
                                            (''care_person_mode'', PStr ''select_beneficiary''),
                                            (''care_beneficiary_id'', PStr ''b1'')])])]"

section \<open>Properties of clause selection\<close>

lemmas ClauseId_defs =
  TITLE_IDENTIFICATION_def REVOCATION_def DEFINITIONS_def APPOINTMENT_EXECUTORS_TRUSTEES_def
  FUNERAL_WISHES_def GUARDIANSHIP_def DISTRIBUTION_OVERVIEW_def SPECIFIC_GIFTS_def
  RESIDUE_DISTRIBUTION_def SURVIVORSHIP_def SUBSTITUTION_def MINOR_TRUSTS_def
  ADMINISTRATIVE_POWERS_def DIGITAL_ASSETS_def PETS_def BUSINESS_INTERESTS_def
  EXCLUSION_NOTE_def LIFE_SUSTAINING_STATEMENT_def ATTESTATION_def


lemma select_loop_filter:
  "select_loop context selected cs =
     selected @ filter (\<lambda>cid. check_clause_dependencies cid context) cs"
  by (induction cs arbitrary: selected) simp_all

lemma select_clauses_filter:
  "select_clauses context = filter (\<lambda>cid. check_clause_dependencies cid context) CLAUSE_ORDER"
  by (simp add: select_clauses_def select_loop_filter)

lemma check_always:
  "check_clause_dependencies TITLE_IDENTIFICATION c"
  "check_clause_dependencies REVOCATION c"
  "check_clause_dependencies DEFINITIONS c"
  "check_clause_dependencies APPOINTMENT_EXECUTORS_TRUSTEES c"
  "check_clause_dependencies DISTRIBUTION_OVERVIEW c"
  "check_clause_dependencies RESIDUE_DISTRIBUTION c"
  "check_clause_dependencies SURVIVORSHIP c"
  "check_clause_dependencies ADMINISTRATIVE_POWERS c"
  "check_clause_dependencies ATTESTATION c"
  by (simp_all add: check_clause_dependencies_def CLAUSE_DEPENDENCIES_def dependency_def
      ClauseId_defs)

lemma check_optional:
  "check_clause_dependencies FUNERAL_WISHES c = has_funeral_wishes c"
  "check_clause_dependencies GUARDIANSHIP c = has_guardianship c"
  "check_clause_dependencies SPECIFIC_GIFTS c = has_specific_gifts c"
  "check_clause_dependencies SUBSTITUTION c = has_substitution c"
  "check_clause_dependencies MINOR_TRUSTS c = has_minor_trusts c"
  "check_clause_dependencies DIGITAL_ASSETS c = has_digital_assets c"
  "check_clause_dependencies PETS c = has_pets c"
  "check_clause_dependencies BUSINESS_INTERESTS c = has_business_interests c"
  "check_clause_dependencies EXCLUSION_NOTE c = has_exclusions c"
  "check_clause_dependencies LIFE_SUSTAINING_STATEMENT c = has_life_sustaining_statement c"
  by (simp_all add: check_clause_dependencies_def CLAUSE_DEPENDENCIES_def dependency_def
      ClauseId_defs get_context_flags_def)

lemma select_clauses_explicit:
  "select_clauses c =
     [TITLE_IDENTIFICATION, REVOCATION, DEFINITIONS, APPOINTMENT_EXECUTORS_TRUSTEES]
     @ optional_clause (has_funeral_wishes c) FUNERAL_WISHES
     @ optional_clause (has_guardianship c) GUARDIANSHIP
     @ [DISTRIBUTION_OVERVIEW]
     @ optional_clause (has_specific_gifts c) SPECIFIC_GIFTS
     @ [RESIDUE_DISTRIBUTION, SURVIVORSHIP]
     @ optional_clause (has_substitution c) SUBSTITUTION
     @ optional_clause (has_minor_trusts c) MINOR_TRUSTS
     @ [ADMINISTRATIVE_POWERS]
     @ optional_clause (has_digital_assets c) DIGITAL_ASSETS
     @ optional_clause (has_pets c) PETS
     @ optional_clause (has_business_interests c) BUSINESS_INTERESTS
     @ optional_clause (has_exclusions c) EXCLUSION_NOTE
     @ optional_clause (has_life_sustaining_statement c) LIFE_SUSTAINING_STATEMENT
     @ [ATTESTATION]"
  by (simp add: select_clauses_filter CLAUSE_ORDER_def check_always check_optional optional_clause_def)

lemma distinct_CLAUSE_ORDER: "distinct CLAUSE_ORDER"
  by (simp add: CLAUSE_ORDER_def ClauseId_defs)

text \<open>
  Claim C1: for every context, the list returned by \<^verbatim>\<open>select_clauses\<close> is a
  subsequence of \<open>CLAUSE_ORDER\<close>, has no duplicates, starts with
  \<open>title_identification\<close> and ends with \<open>attestation\<close>.
\<close>

theorem select_clauses_ordering:
  "subseq (select_clauses c) CLAUSE_ORDER \<and> distinct (select_clauses c)
   \<and> select_clauses c \<noteq> []
   \<and> hd (select_clauses c) = TITLE_IDENTIFICATION
   \<and> last (select_clauses c) = ATTESTATION"
proof -
  have sub: "subseq (select_clauses c) CLAUSE_ORDER"
    by (simp add: select_clauses_filter)
  have dist: "distinct (select_clauses c)"
    by (simp add: select_clauses_filter distinct_CLAUSE_ORDER)
  have ne: "select_clauses c \<noteq> []" and first: "hd (select_clauses c) = TITLE_IDENTIFICATION"
    by (simp_all add: select_clauses_explicit)
  have "last (select_clauses c) = ATTESTATION"
    by (simp add: select_clauses_explicit)
  with sub dist ne first show ?thesis by simp
qed

text \<open>
  Claim C10: \<open>distribution_overview\<close> has an empty set of required flags, and every selected
  list contains the nine clauses whose dependency entry requires no flag.
\<close>

theorem always_included:
  "TITLE_IDENTIFICATION \<in> set (select_clauses c)
   \<and> REVOCATION \<in> set (select_clauses c)
   \<and> DEFINITIONS \<in> set (select_clauses c)
   \<and> APPOINTMENT_EXECUTORS_TRUSTEES \<in> set (select_clauses c)
   \<and> DISTRIBUTION_OVERVIEW \<in> set (select_clauses c)
   \<and> RESIDUE_DISTRIBUTION \<in> set (select_clauses c)
   \<and> SURVIVORSHIP \<in> set (select_clauses c)
   \<and> ADMINISTRATIVE_POWERS \<in> set (select_clauses c)
   \<and> ATTESTATION \<in> set (select_clauses c)
   \<and> map_option required_flags (map_of CLAUSE_DEPENDENCIES DISTRIBUTION_OVERVIEW) = Some []
   \<and> check_clause_dependencies DISTRIBUTION_OVERVIEW c"
proof -
  have "map_option required_flags (map_of CLAUSE_DEPENDENCIES DISTRIBUTION_OVERVIEW) = Some []"
    by (simp add: CLAUSE_DEPENDENCIES_def dependency_def ClauseId_defs)
  then show ?thesis
    by (simp add: select_clauses_explicit check_always)
qed










lemma validate_loop_iff:
  "validate_loop l cs \<longleftrightarrow>
     (\<exists>ps. map (index_of CLAUSE_ORDER) cs = map Some ps \<and> sorted_wrt (<) ps
           \<and> (\<forall>p\<in>set ps. l < int p))"
proof (induction cs arbitrary: l)
  case Nil
  then show ?case by simp
next
  case (Cons c cs)
  show ?case
  proof (cases "index_of CLAUSE_ORDER c")
    case None
    then show ?thesis by auto
  next
    case (Some i)
    show ?thesis
    proof
      assume "validate_loop l (c # cs)"
      with Some have li: "l < int i" and rest: "validate_loop (int i) cs"
        by (auto split: if_splits)
      from rest Cons.IH obtain ps where ps: "map (index_of CLAUSE_ORDER) cs = map Some ps"
        "sorted_wrt (<) ps" "\<forall>p\<in>set ps. int i < int p" by blast
      show "\<exists>ps. map (index_of CLAUSE_ORDER) (c # cs) = map Some ps \<and> sorted_wrt (<) ps
           \<and> (\<forall>p\<in>set ps. l < int p)"
        apply (rule exI[of _ "i # ps"])
        using ps li Some by auto
    next
      assume "\<exists>ps. map (index_of CLAUSE_ORDER) (c # cs) = map Some ps \<and> sorted_wrt (<) ps
           \<and> (\<forall>p\<in>set ps. l < int p)"
      then obtain ps where ps: "map (index_of CLAUSE_ORDER) (c # cs) = map Some ps"
        "sorted_wrt (<) ps" "\<forall>p\<in>set ps. l < int p" by blast
      then obtain qs where qs: "ps = i # qs" using Some by (cases ps) auto
      have "validate_loop (int i) cs"
        apply (subst Cons.IH)
        apply (rule exI[of _ qs])
        using ps qs by auto
      with ps qs Some show "validate_loop l (c # cs)" by auto
    qed
  qed
qed

lemma index_of_Some_mem: "index_of xs y = Some i \<Longrightarrow> y \<in> set xs"
  by (induction xs arbitrary: i) (auto split: if_splits)

lemma index_of_nth:
  "index_of ys y = Some i \<Longrightarrow> i < length ys \<and> ys ! i = y"
  by (induction ys arbitrary: i) (auto split: if_splits)

lemma index_of_append_Cons:
  "y \<notin> set us \<Longrightarrow> index_of (us @ y # vs) y = Some (length us)"
  by (induction us) auto

lemma index_of_distinct_nth:
  "distinct ys \<Longrightarrow> p < length ys \<Longrightarrow> index_of ys (ys ! p) = Some p"
proof -
  assume d: "distinct ys" and p: "p < length ys"
  have ys: "ys = take p ys @ ys ! p # drop (Suc p) ys"
    using p by (simp add: id_take_nth_drop)
  have "ys ! p \<notin> set (take p ys)"
    using d ys by (metis distinct_append not_distinct_conv_prefix)
  then have "index_of (take p ys @ ys ! p # drop (Suc p) ys) (ys ! p) = Some (length (take p ys))"
    by (rule index_of_append_Cons)
  with ys p show ?thesis by simp
qed

lemma subseq_Cons_drop:
  assumes "distinct ys"
  shows "subseq (c # cs) (drop k ys) \<longleftrightarrow>
     (\<exists>i. index_of ys c = Some i \<and> k \<le> i \<and> subseq cs (drop (Suc i) ys))"
proof
  assume "subseq (c # cs) (drop k ys)"
  then have "\<exists>us v vs. drop k ys = us @ v # vs \<and> c = v \<and> subseq cs vs"
    by (rule list_emb_ConsD)
  then obtain us vs where dk: "drop k ys = us @ c # vs" and sv: "subseq cs vs"
    by blast
  have kl: "k \<le> length ys" using dk by (cases "k \<le> length ys") auto
  define pre where "pre = take k ys @ us"
  have "take k ys @ drop k ys = ys" by (rule append_take_drop_id)
  with dk have ys: "ys = pre @ c # vs" by (simp add: pre_def)
  have len: "length pre = k + length us" using kl by (simp add: pre_def)
  from assms ys have "distinct (pre @ c # vs)" by simp
  then have "c \<notin> set pre" by simp
  then have "index_of (pre @ c # vs) c = Some (length pre)"
    by (rule index_of_append_Cons)
  with ys have io: "index_of ys c = Some (length pre)" by simp
  have "drop (Suc (length pre)) ys = vs" by (simp add: ys)
  with io len sv show "\<exists>i. index_of ys c = Some i \<and> k \<le> i \<and> subseq cs (drop (Suc i) ys)"
    by auto
next
  assume "\<exists>i. index_of ys c = Some i \<and> k \<le> i \<and> subseq cs (drop (Suc i) ys)"
  then obtain i where io: "index_of ys c = Some i" and ki: "k \<le> i"
    and sv: "subseq cs (drop (Suc i) ys)" by blast
  from io have il: "i < length ys" and yi: "ys ! i = c" by (simp_all add: index_of_nth)
  have "drop i ys = c # drop (Suc i) ys"
    using il yi Cons_nth_drop_Suc [of i ys] by simp
  then have s1: "subseq (c # cs) (drop i ys)" using sv by simp
  have d: "drop i ys = drop (i - k) (drop k ys)" using ki by simp
  have "drop k ys = take (i - k) (drop k ys) @ drop (i - k) (drop k ys)"
    by (simp only: append_take_drop_id)
  then have "drop k ys = take (i - k) (drop k ys) @ drop i ys" by (simp only: d)
  then obtain zs where "drop k ys = zs @ drop i ys" ..
  with s1 show "subseq (c # cs) (drop k ys)" by (simp add: list_emb_append2)
qed

lemma validate_loop_subseq:
  "- 1 \<le> l \<Longrightarrow> validate_loop l cs \<longleftrightarrow> subseq cs (drop (nat (l + 1)) CLAUSE_ORDER)"
proof (induction cs arbitrary: l)
  case Nil
  then show ?case by simp
next
  case (Cons c cs)
  have IH: "validate_loop (int i) cs \<longleftrightarrow> subseq cs (drop (Suc i) CLAUSE_ORDER)" for i
    using Cons.IH [of "int i"] by (simp add: nat_add_distrib)
  show ?case
  proof (cases "index_of CLAUSE_ORDER c")
    case None
    then show ?thesis
      by (simp add: subseq_Cons_drop [OF distinct_CLAUSE_ORDER])
  next
    case (Some i)
    have "int i \<le> l \<longleftrightarrow> \<not> nat (l + 1) \<le> i" using Cons.prems by auto
    with Some show ?thesis
      by (simp add: subseq_Cons_drop [OF distinct_CLAUSE_ORDER] IH)
  qed
qed

lemma validate_clause_order_subseq:
  "validate_clause_order cs \<longleftrightarrow> subseq cs CLAUSE_ORDER"
  by (simp add: validate_clause_order_def validate_loop_subseq)

lemma validate_clause_order_positions:
  "validate_clause_order cs \<longleftrightarrow>
     (\<exists>ps. sorted_wrt (<) ps \<and> (\<forall>p\<in>set ps. p < length CLAUSE_ORDER)
           \<and> cs = map (\<lambda>p. CLAUSE_ORDER ! p) ps)"
proof
  assume "validate_clause_order cs"
  then obtain ps where ps: "map (index_of CLAUSE_ORDER) cs = map Some ps"
    and srt: "sorted_wrt (<) ps"
    by (auto simp add: validate_clause_order_def validate_loop_iff)
  from ps have len: "length cs = length ps" by (rule map_eq_imp_length_eq)
  have at: "index_of CLAUSE_ORDER (cs ! k) = Some (ps ! k)" if "k < length cs" for k
  proof -
    from that have "map (index_of CLAUSE_ORDER) cs ! k = index_of CLAUSE_ORDER (cs ! k)"
      by simp
    moreover from that len have "map Some ps ! k = Some (ps ! k)" by simp
    ultimately show ?thesis using ps by simp
  qed
  have rng: "\<forall>p\<in>set ps. p < length CLAUSE_ORDER"
  proof
    fix p assume "p \<in> set ps"
    then obtain k where k: "k < length ps" "ps ! k = p" by (auto simp add: in_set_conv_nth)
    with at [of k] len have "index_of CLAUSE_ORDER (cs ! k) = Some p" by simp
    then show "p < length CLAUSE_ORDER" by (simp add: index_of_nth)
  qed
  have "cs = map (\<lambda>p. CLAUSE_ORDER ! p) ps"
  proof (rule nth_equalityI)
    show "length cs = length (map (\<lambda>p. CLAUSE_ORDER ! p) ps)" using len by simp
  next
    fix k assume k: "k < length cs"
    from at [OF k] have "CLAUSE_ORDER ! (ps ! k) = cs ! k" by (simp add: index_of_nth)
    with k len show "cs ! k = map (\<lambda>p. CLAUSE_ORDER ! p) ps ! k" by simp
  qed
  with srt rng show "\<exists>ps. sorted_wrt (<) ps \<and> (\<forall>p\<in>set ps. p < length CLAUSE_ORDER)
           \<and> cs = map (\<lambda>p. CLAUSE_ORDER ! p) ps" by blast
next
  assume "\<exists>ps. sorted_wrt (<) ps \<and> (\<forall>p\<in>set ps. p < length CLAUSE_ORDER)
           \<and> cs = map (\<lambda>p. CLAUSE_ORDER ! p) ps"
  then obtain ps where srt: "sorted_wrt (<) ps"
    and rng: "\<forall>p\<in>set ps. p < length CLAUSE_ORDER"
    and cs: "cs = map (\<lambda>p. CLAUSE_ORDER ! p) ps" by blast
  have "map (index_of CLAUSE_ORDER) cs = map Some ps"
    using rng by (simp add: cs index_of_distinct_nth [OF distinct_CLAUSE_ORDER])
  with srt show "validate_clause_order cs"
    by (auto simp add: validate_clause_order_def validate_loop_iff)
qed

text \<open>
  Claim C7: \<^verbatim>\<open>validate_clause_order\<close> returns True exactly when the elements of the list
  stand at strictly increasing positions of \<open>CLAUSE_ORDER\<close>, that is when the list is a
  subsequence of \<open>CLAUSE_ORDER\<close>; so it returns False for a list with a duplicate and for a
  list with an id that is not in \<open>CLAUSE_ORDER\<close>.
\<close>

theorem validate_clause_order_iff:
  "(validate_clause_order cs \<longleftrightarrow> subseq cs CLAUSE_ORDER)
   \<and> (validate_clause_order cs \<longleftrightarrow>
        (\<exists>ps. sorted_wrt (<) ps \<and> (\<forall>p\<in>set ps. p < length CLAUSE_ORDER)
              \<and> cs = map (\<lambda>p. CLAUSE_ORDER ! p) ps))
   \<and> (\<not> distinct cs \<longrightarrow> \<not> validate_clause_order cs)
   \<and> (\<not> set cs \<subseteq> set CLAUSE_ORDER \<longrightarrow> \<not> validate_clause_order cs)"
proof -
  have sub: "validate_clause_order cs \<longleftrightarrow> subseq cs CLAUSE_ORDER"
    by (rule validate_clause_order_subseq)
  have dist: "distinct cs" if "validate_clause_order cs"
  proof -
    from that sub have "cs \<in> set (subseqs CLAUSE_ORDER)" by simp
    then show ?thesis using distinct_CLAUSE_ORDER by (rule subseqs_distinctD)
  qed
  have mem: "set cs \<subseteq> set CLAUSE_ORDER" if "validate_clause_order cs"
  proof
    fix x assume x: "x \<in> set cs"
    from that sub have "subseq cs CLAUSE_ORDER" by simp
    from list_emb_set [OF this x] show "x \<in> set CLAUSE_ORDER" by blast
  qed
  from sub validate_clause_order_positions [of cs] dist mem show ?thesis by blast
qed

theorem validate_clause_order_witness:
  "validate_clause_order [TITLE_IDENTIFICATION, PETS, ATTESTATION]
   \<and> subseq [TITLE_IDENTIFICATION, PETS, ATTESTATION] CLAUSE_ORDER
   \<and> \<not> validate_clause_order [PETS, TITLE_IDENTIFICATION]
   \<and> \<not> subseq [PETS, TITLE_IDENTIFICATION] CLAUSE_ORDER
   \<and> \<not> distinct [PETS, PETS] \<and> \<not> validate_clause_order [PETS, PETS]
   \<and> \<not> set [''foo''] \<subseteq> set CLAUSE_ORDER \<and> \<not> validate_clause_order [''foo'']"
  using validate_clause_order_iff [of "[TITLE_IDENTIFICATION, PETS, ATTESTATION]"]
    validate_clause_order_iff [of "[PETS, TITLE_IDENTIFICATION]"]
    validate_clause_order_iff [of "[PETS, PETS]"]
    validate_clause_order_iff [of "[''foo'']"]
  by (simp add: validate_clause_order_def CLAUSE_ORDER_def ClauseId_defs)

section \<open>Properties of build\_context\<close>

lemmas from_dict_defs =
  Address_from_dict_def WillMaker_from_dict_def Partner_from_dict_def Child_from_dict_def
  Dependant_from_dict_def Executor_from_dict_def Guardian_from_dict_def
  Beneficiary_from_dict_def Exclusion_from_dict_def BusinessInterest_from_dict_def

lemmas build_defs =
  build_context_def build_will_maker_def build_partner_def build_children_def
  build_other_dependants_def build_executors_def build_guardians_def build_beneficiaries_def
  build_distribution_settings_def build_minor_trusts_def build_toggles_def toggle_funeral_def
  toggle_digital_assets_def toggle_pets_def toggle_business_def toggle_exclusion_def
  toggle_life_sustaining_def build_final_def listed_mode_def

lemmas new_defs =
  new_Address_def new_WillMaker_def new_Partner_def new_Child_def new_Dependant_def
  new_Executor_def new_Guardian_def new_Beneficiary_def new_BusinessInterest_def
  new_Exclusion_def new_WillContext_def

lemmas eval_defs =
  build_defs from_dict_defs new_defs bind_result_def dget_def py_in_def Let_def
  cash_gift_def item_gift_def residue_entry_def enumerate_eq_zip str_of_nat.simps

lemma bind_result_Inr:
  "(bind_result r f = Inr y) = (\<exists>x. r = Inr x \<and> f x = Inr y)"
  by (cases r) (simp_all add: bind_result_def)

lemma py_eq_PStr: "py_eq v (PStr s) = (v = PStr s)"
  by (cases v) auto

lemma extract_gifts_spec:
  "extract_gifts bs c = Inr c' \<Longrightarrow>
     beneficiaries c' = beneficiaries c
   \<and> specific_gifts c' = specific_gifts c @
        concat (map (\<lambda>b. if bn_gift_role b = PStr ''specific_cash'' then [cash_gift b]
                          else if bn_gift_role b = PStr ''specific_item'' then [item_gift b]
                          else []) bs)
   \<and> residue_beneficiaries c' = residue_beneficiaries c @
        concat (map (\<lambda>b. if bn_gift_role b = PStr ''residue'' then [residue_entry b] else []) bs)"
proof (induction bs arbitrary: c)
  case Nil
  then show ?case by simp
next
  case (Cons b bs)
  from Cons.prems show ?case
    by (auto simp add: Let_def py_eq_PStr split: if_splits sum.splits dest!: Cons.IH)
qed

lemma frame_okD: "frame_ok c r \<Longrightarrow> r = Inr c' \<Longrightarrow> gift_lists c' = gift_lists c"
  by (simp add: frame_ok_def)

lemma frame_build_will_maker: "frame_ok c (build_will_maker p c)"
  by (simp add: build_will_maker_def frame_ok_def gift_lists_def bind_result_def Let_def
      split: sum.split option.split)

lemma frame_build_partner: "frame_ok c (build_partner p c)"
  by (simp add: build_partner_def frame_ok_def gift_lists_def bind_result_def Let_def
      split: sum.split option.split)

lemma frame_build_children: "frame_ok c (build_children p c)"
  by (simp add: build_children_def frame_ok_def gift_lists_def bind_result_def Let_def
      split: sum.split option.split)

lemma frame_build_other_dependants: "frame_ok c (build_other_dependants p c)"
  by (simp add: build_other_dependants_def frame_ok_def gift_lists_def bind_result_def Let_def
      split: sum.split option.split)

lemma frame_build_executors: "frame_ok c (build_executors p c)"
  by (simp add: build_executors_def frame_ok_def gift_lists_def bind_result_def Let_def
      split: sum.split option.split)

lemma frame_build_guardians: "frame_ok c (build_guardians p c)"
  by (simp add: build_guardians_def frame_ok_def gift_lists_def bind_result_def Let_def
      split: sum.split option.split)

lemma frame_build_distribution_settings: "frame_ok c (build_distribution_settings p c)"
  by (simp add: build_distribution_settings_def frame_ok_def gift_lists_def bind_result_def Let_def
      split: sum.split option.split)

lemma frame_build_minor_trusts: "frame_ok c (build_minor_trusts p c)"
  by (simp add: build_minor_trusts_def frame_ok_def gift_lists_def bind_result_def Let_def
      split: sum.split option.split)

lemma frame_toggle_funeral: "frame_ok c (toggle_funeral t c)"
  by (simp add: toggle_funeral_def frame_ok_def gift_lists_def bind_result_def Let_def
      split: sum.split option.split)

lemma frame_toggle_digital_assets: "frame_ok c (toggle_digital_assets t c)"
  by (simp add: toggle_digital_assets_def frame_ok_def gift_lists_def bind_result_def Let_def
      split: sum.split option.split)

lemma frame_toggle_pets: "frame_ok c (toggle_pets t c)"
  by (simp add: toggle_pets_def frame_ok_def gift_lists_def bind_result_def Let_def
      split: sum.split option.split)

lemma frame_toggle_business: "frame_ok c (toggle_business t c)"
  by (simp add: toggle_business_def frame_ok_def gift_lists_def bind_result_def Let_def
      split: sum.split option.split)

lemma frame_toggle_exclusion: "frame_ok c (toggle_exclusion t c)"
  by (simp add: toggle_exclusion_def frame_ok_def gift_lists_def bind_result_def Let_def
      split: sum.split option.split)

lemma frame_toggle_life_sustaining: "frame_ok c (toggle_life_sustaining t c)"
  by (simp add: toggle_life_sustaining_def frame_ok_def gift_lists_def bind_result_def Let_def
      split: sum.split option.split)

lemma frame_build_final: "frame_ok c (build_final p c)"
  by (simp add: build_final_def frame_ok_def gift_lists_def bind_result_def Let_def
      split: sum.split option.split)

lemma frame_build_toggles: "frame_ok c (build_toggles p c)"
proof -
  have step: "frame_ok c0 (bind_result r f)"
    if "frame_ok c0 r" and "\<And>x. frame_ok x (f x)" for c0 r f
  proof (cases r)
    case (Inl e)
    then show ?thesis by (simp add: frame_ok_def bind_result_def)
  next
    case (Inr b)
    with that(1) have "gift_lists b = gift_lists c0" by (simp add: frame_ok_def)
    with that(2) [of b] Inr show ?thesis
      by (simp add: frame_ok_def bind_result_def split: sum.splits)
  qed
  have "frame_ok c (bind_result (toggle_funeral t c) (\<lambda>c1.
     bind_result (toggle_digital_assets t c1) (\<lambda>c2.
     bind_result (toggle_pets t c2) (\<lambda>c3.
     bind_result (toggle_business t c3) (\<lambda>c4.
     bind_result (toggle_exclusion t c4) (\<lambda>c5.
     toggle_life_sustaining t c5))))))" for t
    by (intro step frame_toggle_funeral frame_toggle_digital_assets frame_toggle_pets
        frame_toggle_business frame_toggle_exclusion frame_toggle_life_sustaining)
  note inner = this
  show ?thesis
  proof (cases "as_dict (dget p ''toggles'' (PDict []))")
    case (Inl e)
    then show ?thesis by (simp add: build_toggles_def bind_result_def frame_ok_def)
  next
    case (Inr t)
    with inner [of t] show ?thesis by (simp add: build_toggles_def bind_result_def)
  qed
qed

lemma beneficiaries_spec:
  assumes "build_beneficiaries p c = Inr c'"
    and "specific_gifts c = []" and "residue_beneficiaries c = []"
  shows "(\<exists>raw. py_iter (dget p ''beneficiaries'' (PList [])) = Inr raw
            \<and> map_result (\<lambda>(i, b). Beneficiary_from_dict b i) (enumerate 0 raw)
                = Inr (beneficiaries c'))
   \<and> specific_gifts c' =
        concat (map (\<lambda>b. if bn_gift_role b = PStr ''specific_cash'' then [cash_gift b]
                          else if bn_gift_role b = PStr ''specific_item'' then [item_gift b]
                          else []) (beneficiaries c'))
   \<and> residue_beneficiaries c' =
        concat (map (\<lambda>b. if bn_gift_role b = PStr ''residue'' then [residue_entry b] else [])
                 (beneficiaries c'))"
proof -
  from assms(1) obtain raw bs c1 where
    raw: "py_iter (dget p ''beneficiaries'' (PList [])) = Inr raw"
    and bs: "map_result (\<lambda>(i, b). Beneficiary_from_dict b i) (enumerate 0 raw) = Inr bs"
    and ex: "extract_gifts bs (c\<lparr>beneficiaries := bs, beneficiary_count := length bs\<rparr>) = Inr c1"
    and c': "c' = c1\<lparr>has_residue_scheme := (length (residue_beneficiaries c1) > 0),
                     has_percentages := (percentage_sum c1 > 0)\<rparr>"
    unfolding build_beneficiaries_def bind_result_Inr by auto
  from extract_gifts_spec [OF ex] assms(2,3) raw bs c' show ?thesis
    by simp
qed

text \<open>
  Claim C5: whenever \<^verbatim>\<open>build_context\<close> returns, the beneficiaries of the context are
  the payload's beneficiary entries converted one by one in input order, the list
  \<open>specific_gifts\<close> holds exactly one entry for each beneficiary whose gift role is
  \<open>specific_cash\<close> or \<open>specific_item\<close>, the list \<open>residue_beneficiaries\<close> exactly one
  entry for each beneficiary whose gift role is \<open>residue\<close>, and both lists follow the order
  of the beneficiaries.
\<close>

theorem build_context_projections:
  assumes "build_context (PDict p) = Inr ctx"
  shows "(\<exists>raw. py_iter (dget p ''beneficiaries'' (PList [])) = Inr raw
            \<and> map_result (\<lambda>(i, b). Beneficiary_from_dict b i) (enumerate 0 raw)
                = Inr (beneficiaries ctx))
   \<and> specific_gifts ctx =
        concat (map (\<lambda>b. if bn_gift_role b = PStr ''specific_cash'' then [cash_gift b]
                          else if bn_gift_role b = PStr ''specific_item'' then [item_gift b]
                          else []) (beneficiaries ctx))
   \<and> residue_beneficiaries ctx =
        concat (map (\<lambda>b. if bn_gift_role b = PStr ''residue'' then [residue_entry b] else [])
                 (beneficiaries ctx))"
proof -
  from assms obtain c1 c2 c3 c4 c5 c6 c7 c8 c9 c10 where
    s1: "build_will_maker p new_WillContext = Inr c1"
    and s2: "build_partner p c1 = Inr c2"
    and s3: "build_children p c2 = Inr c3"
    and s4: "build_other_dependants p c3 = Inr c4"
    and s5: "build_executors p c4 = Inr c5"
    and s6: "build_guardians p c5 = Inr c6"
    and s7: "build_beneficiaries p c6 = Inr c7"
    and s8: "build_distribution_settings p c7 = Inr c8"
    and s9: "build_minor_trusts p c8 = Inr c9"
    and s10: "build_toggles p c9 = Inr c10"
    and s11: "build_final p c10 = Inr ctx"
    unfolding build_context_def bind_result_Inr by auto
  have "gift_lists c6 = gift_lists new_WillContext"
    using frame_okD [OF frame_build_will_maker s1] frame_okD [OF frame_build_partner s2]
      frame_okD [OF frame_build_children s3] frame_okD [OF frame_build_other_dependants s4]
      frame_okD [OF frame_build_executors s5] frame_okD [OF frame_build_guardians s6]
    by simp
  then have empty: "specific_gifts c6 = []" "residue_beneficiaries c6 = []"
    by (simp_all add: gift_lists_def new_WillContext_def)
  have "gift_lists ctx = gift_lists c7"
    using frame_okD [OF frame_build_distribution_settings s8]
      frame_okD [OF frame_build_minor_trusts s9] frame_okD [OF frame_build_toggles s10]
      frame_okD [OF frame_build_final s11]
    by simp
  then have same: "beneficiaries ctx = beneficiaries c7" "specific_gifts ctx = specific_gifts c7"
    "residue_beneficiaries ctx = residue_beneficiaries c7"
    by (simp_all add: gift_lists_def)
  from beneficiaries_spec [OF s7 empty] same show ?thesis
    by simp
qed

theorem build_context_projections_witness:
  "\<exists>ctx. build_context example_payload = Inr ctx
     \<and> map sg_beneficiary_name (specific_gifts ctx) = [PStr ''Ann'', PStr ''Cy'']
     \<and> map rb_beneficiary_id (residue_beneficiaries ctx) = [PStr ''beneficiary_1'']"
proof -
  obtain ctx where h: "build_context (PDict [(''beneficiaries'', PList
     [PDict [(''id'', PStr ''b1''), (''full_name'', PStr ''Ann''),
             (''gift_role'', PStr ''specific_cash''), (''cash_amount'', PInt 1000)],
      PDict [(''full_name'', PStr ''Bob''), (''gift_role'', PStr ''residue''),
             (''residue_share_percent'', PInt 50), (''percentage'', PInt 50)],
      PDict [(''full_name'', PStr ''Cy''), (''gift_role'', PStr ''specific_item''),
             (''item_description'', PStr ''watch'')],
      PDict [(''full_name'', PStr ''Di''), (''gift_role'', PStr ''percentage_only''),
             (''percentage'', PInt 30)]])]) = Inr ctx"
    and roles: "map bn_gift_role (beneficiaries ctx) =
       [PStr ''specific_cash'', PStr ''residue'', PStr ''specific_item'', PStr ''percentage_only'']"
    and names: "map bn_full_name (beneficiaries ctx) =
       [PStr ''Ann'', PStr ''Bob'', PStr ''Cy'', PStr ''Di'']"
    and ids: "map bn_id (beneficiaries ctx) =
       [PStr ''b1'', PStr ''beneficiary_1'', PStr ''beneficiary_2'', PStr ''beneficiary_3'']"
    by (simp add: eval_defs)
  from roles names ids obtain b1 b2 b3 b4 where bs: "beneficiaries ctx = [b1, b2, b3, b4]"
    and f: "bn_gift_role b1 = PStr ''specific_cash''" "bn_gift_role b2 = PStr ''residue''"
      "bn_gift_role b3 = PStr ''specific_item''" "bn_gift_role b4 = PStr ''percentage_only''"
      "bn_full_name b1 = PStr ''Ann''" "bn_full_name b3 = PStr ''Cy''"
      "bn_id b2 = PStr ''beneficiary_1''"
    by (auto simp add: map_eq_Cons_conv)
  from build_context_projections [OF h] bs f h show ?thesis
    by (simp add: example_payload_def cash_gift_def item_gift_def residue_entry_def)
qed

text \<open>
  What the loop accumulates: the percentage of every beneficiary that carries a number,
  whatever its gift role.
\<close>

lemma py_float_add_value:
  "py_float_add acc v = Inr s \<Longrightarrow> s = acc + (case py_num v of Some r \<Rightarrow> r | None \<Rightarrow> 0)"
  by (cases v) (auto split: if_splits)

lemma extract_gifts_percentage_sum:
  "extract_gifts bs c = Inr c' \<Longrightarrow>
   percentage_sum c' = percentage_sum c +
     sum_list (map (\<lambda>b. case py_num (bn_percentage b) of Some r \<Rightarrow> r | None \<Rightarrow> 0) bs)"
proof (induction bs arbitrary: c)
  case Nil
  then show ?case by simp
next
  case (Cons b bs)
  from Cons.prems show ?case
    by (auto simp add: Let_def py_eq_PStr split: if_splits sum.splits
        dest!: Cons.IH py_float_add_value)
qed

text \<open>
  Claim C4 says that \<open>percentage_sum\<close> adds the percentages of the beneficiaries whose gift
  role is \<open>percentage_only\<close>. The loop adds the percentage of every beneficiary that has
  one: for a single beneficiary of role \<open>residue\<close> carrying a percentage of 50 the sum is 50,
  where the claim gives 0.
\<close>

theorem percentage_sum_counts_other_roles:
  "\<exists>ctx. build_context (PDict [(''beneficiaries'', PList
       [PDict [(''full_name'', PStr ''A''), (''gift_role'', PStr ''residue''),
               (''residue_share_percent'', PInt 100), (''percentage'', PInt 50)]])]) = Inr ctx
     \<and> map bn_gift_role (beneficiaries ctx) = [PStr ''residue'']
     \<and> percentage_sum ctx = 50 \<and> has_percentages ctx"
  by (simp add: eval_defs)

text \<open>
  Claim C3: \<^verbatim>\<open>build_context\<close> is to return a context for every payload mapping,
  whatever the shape of its sub-values. It reads every section with \<^verbatim>\<open>.get\<close>, without
  the \<^verbatim>\<open>isinstance\<close> test that \<^verbatim>\<open>validate_payload\<close> makes before it reads the same
  section: a section that is not a mapping (here \<^verbatim>\<open>toggles\<close>, \<^verbatim>\<open>dependants\<close>,
  \<^verbatim>\<open>survivorship\<close>, \<^verbatim>\<open>substitution\<close> and \<^verbatim>\<open>minor_trusts\<close>, which the validator
  lets pass) raises AttributeError, and a number in place of the list of children raises
  TypeError.
\<close>

theorem build_context_raises_on_malformed_sections:
  "build_context (PDict [(''toggles'', PInt 5)]) = Inl AttributeError
   \<and> build_context (PDict [(''dependants'', PInt 5)]) = Inl AttributeError
   \<and> build_context (PDict [(''survivorship'', PStr ''30'')]) = Inl AttributeError
   \<and> build_context (PDict [(''substitution'', PList [])]) = Inl AttributeError
   \<and> build_context (PDict [(''minor_trusts'', PNone)]) = Inl AttributeError
   \<and> build_context (PDict [(''has_children'', PBool True), (''children'', PInt 5)])
       = Inl TypeError"
  by (simp add: eval_defs)

section \<open>Payloads on which build\_context returns\<close>

lemma returns_simps [simp]: "returns (Inr x)" "\<not> returns (Inl e)"
  by (simp_all add: returns_def)

lemma returns_iff: "returns r = (\<exists>x. r = Inr x)"
  by (cases r) simp_all

lemma returns_bind:
  "returns r \<Longrightarrow> (\<And>x. r = Inr x \<Longrightarrow> returns (f x)) \<Longrightarrow> returns (bind_result r f)"
  by (cases r) (simp_all add: bind_result_def)

lemma returns_map_result: "list_all (\<lambda>x. returns (f x)) xs \<Longrightarrow> returns (map_result f xs)"
  by (induction xs) (auto simp add: returns_iff)

lemma is_dictE: "is_dict v \<Longrightarrow> (\<And>d. v = PDict d \<Longrightarrow> P) \<Longrightarrow> P"
  by (cases v) simp_all

lemma list_ofE: "list_of Q v \<Longrightarrow> (\<And>xs. v = PList xs \<Longrightarrow> list_all Q xs \<Longrightarrow> P) \<Longrightarrow> P"
  by (cases v) simp_all

lemma returns_Address: "dict_or_falsy v \<Longrightarrow> returns (Address_from_dict v)"
  by (cases v) (auto simp add: dict_or_falsy_def Address_from_dict_def)

lemma entity_okE:
  assumes "entity_ok v"
  obtains "\<not> py_truthy v" | d where "v = PDict d" "py_truthy v"
    "returns (Address_from_dict (dget d ''address'' (PDict [])))"
proof (cases "py_truthy v")
  case False
  then show ?thesis by (rule that(1))
next
  case True
  with assms obtain d where v: "v = PDict d"
    and a: "dict_or_falsy (dget d ''address'' (PDict []))"
    by (cases v) (auto simp add: entity_ok_def)
  from v True returns_Address [OF a] show ?thesis by (rule that(2))
qed

lemma returns_WillMaker: "entity_ok v \<Longrightarrow> returns (WillMaker_from_dict v)"
  by (erule entity_okE) (auto simp add: WillMaker_from_dict_def returns_iff bind_result_def)

lemma returns_Partner: "entity_ok v \<Longrightarrow> returns (Partner_from_dict v)"
  by (erule entity_okE) (auto simp add: Partner_from_dict_def returns_iff bind_result_def)

lemma returns_Executor: "entity_ok v \<Longrightarrow> returns (Executor_from_dict v)"
  by (erule entity_okE) (auto simp add: Executor_from_dict_def returns_iff bind_result_def)

lemma returns_Guardian: "entity_ok v \<Longrightarrow> returns (Guardian_from_dict v)"
  by (erule entity_okE) (auto simp add: Guardian_from_dict_def returns_iff bind_result_def)

lemma returns_Beneficiary: "entity_ok v \<Longrightarrow> returns (Beneficiary_from_dict v i)"
  by (erule entity_okE) (auto simp add: Beneficiary_from_dict_def returns_iff bind_result_def)

lemma returns_Child: "dict_or_falsy v \<Longrightarrow> returns (Child_from_dict v)"
  by (cases v) (auto simp add: dict_or_falsy_def Child_from_dict_def)

lemma returns_Dependant: "dict_or_falsy v \<Longrightarrow> returns (Dependant_from_dict v)"
  by (cases v) (auto simp add: dict_or_falsy_def Dependant_from_dict_def)

lemma returns_Exclusion: "dict_or_falsy v \<Longrightarrow> returns (Exclusion_from_dict v)"
  by (cases v) (auto simp add: dict_or_falsy_def Exclusion_from_dict_def)

lemma returns_BusinessInterest: "interest_ok v \<Longrightarrow> returns (BusinessInterest_from_dict v bs)"
proof (cases "py_truthy v")
  case False
  then show ?thesis by (simp add: BusinessInterest_from_dict_def)
next
  case True
  assume "interest_ok v"
  with True obtain d r where v: "v = PDict d" and r: "dget d ''recipient'' (PDict []) = PDict r"
    and a: "dict_or_falsy (dget r ''address'' (PDict []))"
    by (auto simp add: interest_ok_def split: pyval.splits)
  from returns_Address [OF a] obtain addr where
    "Address_from_dict (dget r ''address'' (PDict [])) = Inr addr"
    by (auto simp add: returns_iff)
  with True v r show ?thesis
    by (simp add: BusinessInterest_from_dict_def Let_def bind_result_def split: option.split)
qed

lemma returns_list:
  assumes "list_of Q v" and "\<And>x. Q x \<Longrightarrow> returns (f x)"
  shows "returns (bind_result (py_iter v) (\<lambda>xs. bind_result (map_result f xs) g)) =
         (\<forall>ys. map_result f (case v of PList xs \<Rightarrow> xs | _ \<Rightarrow> []) = Inr ys \<longrightarrow> returns (g ys))"
proof -
  from assms(1) obtain xs where v: "v = PList xs" and q: "list_all Q xs"
    by (rule list_ofE)
  from q assms(2) have "list_all (\<lambda>x. returns (f x)) xs"
    by (simp add: list_all_iff)
  then obtain ys where "map_result f xs = Inr ys"
    using returns_map_result [of f xs] by (auto simp add: returns_iff)
  with v show ?thesis by (simp add: bind_result_def)
qed

lemma returns_build_will_maker:
  "entity_ok (dget p ''will_maker'' (PDict [])) \<Longrightarrow> returns (build_will_maker p c)"
  unfolding build_will_maker_def
  by (rule returns_bind) (simp_all add: returns_WillMaker)

lemma returns_build_partner:
  "entity_ok (dget p ''partner'' (PDict [])) \<Longrightarrow> returns (build_partner p c)"
  unfolding build_partner_def Let_def
  by (auto intro!: returns_bind simp add: returns_Partner)

lemma returns_build_children:
  "list_of dict_or_falsy (dget p ''children'' (PList [])) \<Longrightarrow> returns (build_children p c)"
  unfolding build_children_def
  by (simp add: returns_list [where Q = dict_or_falsy] returns_Child)

lemma returns_build_other_dependants:
  assumes "dependants_ok p"
  shows "returns (build_other_dependants p c)"
proof -
  from assms obtain dd where d: "dget p ''dependants'' (PDict []) = PDict dd"
    and l: "list_of dict_or_falsy (dget dd ''other_dependants'' (PList []))"
    by (auto simp add: dependants_ok_def split: pyval.splits)
  show ?thesis
    unfolding build_other_dependants_def d
    by (simp add: bind_result_def [of "Inr dd"] returns_list [OF l returns_Dependant])
qed

lemma bind_result_Inr_left: "bind_result (Inr x) f = f x"
  by (simp add: bind_result_def)

lemma returns_iter_map:
  assumes "list_of Q v" and "\<And>x. Q x \<Longrightarrow> returns (f x)" and "\<And>ys. returns (g ys)"
  shows "returns (bind_result (py_iter v) (\<lambda>xs. bind_result (map_result f xs) g))"
  using assms(3) by (simp add: returns_list [OF assms(1,2)])

lemma returns_build_executors:
  assumes "executors_ok p"
  shows "returns (build_executors p c)"
proof -
  from assms obtain ed bd where e: "dget p ''executors'' (PDict []) = PDict ed"
    and l1: "list_of entity_ok (dget ed ''primary'' (PList []))"
    and b: "dget ed ''backup'' (PDict []) = PDict bd"
    and l2: "list_of entity_ok (dget bd ''list'' (PList []))"
    by (auto simp add: executors_ok_def split: pyval.splits)
  note r1 = returns_iter_map [OF l1 returns_Executor]
  note r2 = returns_iter_map [OF l2 returns_Executor]
  show ?thesis
    unfolding build_executors_def e b Let_def as_dict.simps bind_result_Inr_left
    by (rule returns_bind) (auto simp add: bind_result_Inr_left intro!: r1 r2 split: option.split)
qed

lemma returns_build_guardians:
  assumes "guardianship_ok p"
  shows "returns (build_guardians p c)"
proof -
  from assms obtain gd where g: "dget p ''guardianship'' (PDict []) = PDict gd"
    and g1: "entity_ok (dget gd ''guardian'' (PDict []))"
    and g2: "entity_ok (dget gd ''backup_guardian'' (PDict []))"
    by (auto simp add: guardianship_ok_def split: pyval.splits)
  have backup_ok: "returns (bind_result (as_dict (dget gd ''backup_guardian'' (PDict []))) k)"
    if "py_truthy (dget gd ''backup_guardian'' (PDict []))" and "\<And>d. returns (k d)" for k
    using g2 that by (cases "dget gd ''backup_guardian'' (PDict [])")
      (auto simp add: entity_ok_def bind_result_Inr_left)
  show ?thesis
    unfolding build_guardians_def g Let_def as_dict.simps bind_result_Inr_left
    by (auto intro!: returns_bind backup_ok simp add: returns_Guardian g1 g2)
qed

lemma number_or_none_add:
  "number_or_none v \<Longrightarrow> v \<noteq> PNone \<Longrightarrow> py_float_add acc v \<noteq> Inl e"
  by (cases v) auto

lemma returns_extract_gifts:
  "list_all (\<lambda>b. number_or_none (bn_percentage b)) bs \<Longrightarrow> returns (extract_gifts bs c)"
proof (induction bs arbitrary: c)
  case Nil
  then show ?case by simp
next
  case (Cons b bs)
  then have n: "number_or_none (bn_percentage b)"
    and rest: "\<And>c. returns (extract_gifts bs c)"
    by simp_all
  show ?case
  proof (cases "bn_percentage b = PNone")
    case True
    then show ?thesis by (simp add: Let_def rest)
  next
    case False
    with number_or_none_add [OF n False] show ?thesis
      by (simp add: Let_def rest split: sum.split)
  qed
qed

lemma Beneficiary_percentage:
  "beneficiary_ok v \<Longrightarrow> Beneficiary_from_dict v i = Inr b \<Longrightarrow> number_or_none (bn_percentage b)"
  by (cases v)
    (auto simp add: beneficiary_ok_def Beneficiary_from_dict_def new_Beneficiary_def
      bind_result_Inr split: if_splits)

lemma map_result_all:
  "map_result f xs = Inr ys \<Longrightarrow> list_all Q xs \<Longrightarrow> (\<And>x y. Q x \<Longrightarrow> f x = Inr y \<Longrightarrow> R y)
   \<Longrightarrow> list_all R ys"
  by (induction xs arbitrary: ys) (auto split: sum.splits)

lemma returns_build_beneficiaries:
  assumes "list_of beneficiary_ok (dget p ''beneficiaries'' (PList []))"
  shows "returns (build_beneficiaries p c)"
proof -
  from assms obtain raw where r: "dget p ''beneficiaries'' (PList []) = PList raw"
    and ok: "list_all beneficiary_ok raw"
    by (rule list_ofE)
  let ?f = "\<lambda>(i, b). Beneficiary_from_dict b i"
  have ok': "list_all (\<lambda>ib. beneficiary_ok (snd ib)) (enumerate 0 raw)"
    using ok by (auto simp add: list_all_iff in_set_enumerate_eq)
  then have "list_all (\<lambda>ib. returns (?f ib)) (enumerate 0 raw)"
    by (auto simp add: list_all_iff beneficiary_ok_def returns_Beneficiary)
  then obtain bs where bs: "map_result ?f (enumerate 0 raw) = Inr bs"
    using returns_map_result [of ?f "enumerate 0 raw"] by (auto simp add: returns_iff)
  have "list_all (\<lambda>b. number_or_none (bn_percentage b)) bs"
    by (rule map_result_all [OF bs ok']) (auto dest: Beneficiary_percentage)
  then have "returns (extract_gifts bs c')" for c'
    by (rule returns_extract_gifts)
  then show ?thesis
    unfolding build_beneficiaries_def r py_iter.simps bind_result_Inr_left bs
    by (auto intro!: returns_bind)
qed

lemma returns_build_distribution_settings:
  assumes "settings_ok p"
  shows "returns (build_distribution_settings p c)"
proof -
  from assms obtain d1 d2 d3 where "dget p ''distribution'' (PDict []) = PDict d1"
    "dget p ''survivorship'' (PDict []) = PDict d2" "dget p ''substitution'' (PDict []) = PDict d3"
    unfolding settings_ok_def by (elim conjE is_dictE)
  then show ?thesis
    by (simp add: build_distribution_settings_def bind_result_Inr_left Let_def)
qed

lemma returns_build_minor_trusts:
  assumes "minor_trusts_ok p"
  shows "returns (build_minor_trusts p c)"
proof -
  from assms obtain md where m: "dget p ''minor_trusts'' (PDict []) = PDict md"
    and t: "entity_ok (dget md ''trustee'' (PDict []))"
    by (auto simp add: minor_trusts_ok_def split: pyval.splits)
  show ?thesis
    unfolding build_minor_trusts_def m Let_def as_dict.simps bind_result_Inr_left
    by (auto intro!: returns_bind simp add: returns_Executor t)
qed

lemma returns_simple_toggles:
  "is_dict (dget t ''funeral'' (PDict [])) \<Longrightarrow> returns (toggle_funeral t c)"
  "is_dict (dget t ''digital_assets'' (PDict [])) \<Longrightarrow> returns (toggle_digital_assets t c)"
  "is_dict (dget t ''life_sustaining'' (PDict [])) \<Longrightarrow> returns (toggle_life_sustaining t c)"
  by (auto elim!: is_dictE
      simp add: toggle_funeral_def toggle_digital_assets_def toggle_life_sustaining_def
        bind_result_Inr_left)

lemma returns_toggle_pets:
  assumes "pets_ok t"
  shows "returns (toggle_pets t c)"
proof -
  from assms obtain pd cd where p: "dget t ''pets'' (PDict []) = PDict pd"
    and cr: "dget pd ''carer'' (PDict []) = PDict cd"
    and a: "dict_or_falsy (dget cd ''address'' (PDict []))"
    by (auto simp add: pets_ok_def split: pyval.splits)
  show ?thesis
    unfolding toggle_pets_def p cr Let_def as_dict.simps bind_result_Inr_left
    by (auto intro!: returns_bind simp add: returns_Address a split: option.split)
qed

lemma returns_toggle_business:
  assumes "business_ok t"
  shows "returns (toggle_business t c)"
proof -
  from assms obtain bd where b: "dget t ''business'' (PDict []) = PDict bd"
    and l: "list_of interest_ok (dget bd ''interests'' (PList []))"
    by (auto simp add: business_ok_def split: pyval.splits)
  show ?thesis
    unfolding toggle_business_def b as_dict.simps bind_result_Inr_left
    by (auto intro!: returns_iter_map [OF l] returns_BusinessInterest)
qed

lemma returns_toggle_exclusion:
  assumes "exclusion_ok t"
  shows "returns (toggle_exclusion t c)"
proof -
  from assms obtain xd where x: "dget t ''exclusion'' (PDict []) = PDict xd"
    and l: "list_of dict_or_falsy (dget xd ''exclusions'' (PList []))"
    by (auto simp add: exclusion_ok_def split: pyval.splits)
  show ?thesis
    unfolding toggle_exclusion_def x as_dict.simps bind_result_Inr_left
    by (auto intro!: returns_iter_map [OF l] returns_Exclusion)
qed

lemma returns_build_toggles:
  assumes "toggles_ok p"
  shows "returns (build_toggles p c)"
proof -
  from assms obtain t where t: "dget p ''toggles'' (PDict []) = PDict t"
    and ok: "is_dict (dget t ''funeral'' (PDict []))"
      "is_dict (dget t ''digital_assets'' (PDict []))"
      "pets_ok t" "business_ok t" "exclusion_ok t"
      "is_dict (dget t ''life_sustaining'' (PDict []))"
    by (auto simp add: toggles_ok_def split: pyval.splits)
  show ?thesis
    unfolding build_toggles_def t as_dict.simps bind_result_Inr_left
    by (intro returns_bind returns_simple_toggles returns_toggle_pets returns_toggle_business
        returns_toggle_exclusion ok)
qed

lemma returns_build_final:
  "is_dict (dget p ''declarations'' (PDict [])) \<Longrightarrow> returns (build_final p c)"
  by (auto elim!: is_dictE simp add: build_final_def bind_result_Inr_left)

lemma build_context_returns_on_well_shaped:
  assumes "well_shaped p"
  shows "\<exists>ctx. build_context (PDict p) = Inr ctx"
proof -
  from assms have "returns (build_context (PDict p))"
    unfolding build_context_def well_shaped_def as_dict.simps bind_result_Inr_left
    by (intro returns_bind returns_build_will_maker returns_build_partner returns_build_children
        returns_build_other_dependants returns_build_executors returns_build_guardians
        returns_build_beneficiaries returns_build_distribution_settings
        returns_build_minor_trusts returns_build_toggles returns_build_final) simp_all
  then show ?thesis by (simp add: returns_iff)
qed

lemmas shape_defs =
  well_shaped_def entity_ok_def dict_or_falsy_def beneficiary_ok_def interest_ok_def
  dependants_ok_def executors_ok_def guardianship_ok_def settings_ok_def minor_trusts_ok_def
  pets_ok_def business_ok_def exclusion_ok_def toggles_ok_def dget_def

text \<open>
  Where \<^verbatim>\<open>build_context\<close> does return: for every payload dictionary whose sub-values are
  absent or have the shape the code reads them with (\<open>well_shaped\<close>). The empty payload is
  of this kind and gives the default context, with empty collections.
\<close>

lemma build_context_well_shaped:
  "(well_shaped p \<longrightarrow> (\<exists>ctx. build_context (PDict p) = Inr ctx))
   \<and> well_shaped [] \<and> build_context (PDict []) = Inr new_WillContext"
proof -
  have "well_shaped []" by (simp add: shape_defs)
  moreover have "build_context (PDict []) = Inr new_WillContext"
    by (simp add: eval_defs)
  ultimately show ?thesis
    using build_context_returns_on_well_shaped [of p] by blast
qed

lemma well_shaped_sample_fields: "well_shaped sample_fields"
  by (simp add: sample_fields_def shape_defs)

text \<open>The sample payload, evaluated.\<close>

lemma sample_eval:
  "\<exists>ctx. build_context (PDict sample_fields) = Inr ctx \<and> has_guardianship ctx
     \<and> pets_carer_name ctx = PStr ''Ann'' \<and> executor_count ctx = 1"
  by (simp add: sample_fields_def eval_defs)

section \<open>Properties of the attestation clause\<close>

text \<open>
  Claim C8: whatever the context, the attestation clause is the execution paragraph, the
  signature block of the will maker, the witnessing paragraph and the signature blocks of
  two witnesses, in this order; the will maker's name is in the first signature block, and
  no other field of the context is read: the clause is the one rendered from the default
  context that carries the same name.
\<close>

theorem render_attestation_shape:
  "map cb_type (render_attestation c) =
     [''paragraph'', ''signature_block'', ''paragraph'', ''signature_block'', ''signature_block'']
   \<and> map (\<lambda>b. py_get (cb_content b) ''label'' (PStr ''''))
         (filter (\<lambda>b. cb_type b = ''signature_block'') (render_attestation c)) =
       [Inr (PStr ''Signature of Will Maker''), Inr (PStr ''Witness 1''), Inr (PStr ''Witness 2'')]
   \<and> py_get (cb_content (render_attestation c ! 1)) ''name'' (PStr '''')
       = Inr (wm_full_name (will_maker c))
   \<and> map cb_content (filter (\<lambda>b. cb_type b = ''paragraph'') (render_attestation c)) =
       [PStr ''SIGNED by the Testator as their Last Will and Testament:'',
        PStr (''SIGNED by the above-named Testator in our presence '' @
          ''and attested by us in the presence of the Testator and each other.'')]
   \<and> drop 2 (render_attestation c) = drop 2 (render_attestation new_WillContext)
   \<and> render_attestation c =
       render_attestation
         (new_WillContext\<lparr>will_maker := new_WillMaker\<lparr>wm_full_name := wm_full_name (will_maker c)\<rparr>\<rparr>)"
  by (simp add: render_attestation_def dget_def)

section \<open>Properties of the integrity check\<close>

text \<open>
  The check returns True exactly when the expected hash is the string of the digest of the
  bytes, whatever the digest function.
\<close>

lemma verify_pdf_integrity_iff:
  "verify_pdf_integrity sha pdf_bytes expected_hash \<longleftrightarrow> expected_hash = PStr (sha pdf_bytes)"
  by (simp add: verify_pdf_integrity_def)

section \<open>Properties of the compiler\<close>

text \<open>The footer rendition on some timestamps, as \<^verbatim>\<open>strftime\<close> gives it.\<close>

lemmas time_defs =
  format_timestamp_for_footer_def aest_def ten_hours_later_def days_in_month_def is_leap_def
  pad2_def month_name_def str_of_nat.simps Let_def christmas_10_def

lemma footer_format_evening: "format_timestamp_for_footer aest (Some (christmas_10 0 0)) =
   ''25 December 2024 at 08:00 PM AEST''"
  by (simp add: time_defs)

lemma footer_format_new_year: "format_timestamp_for_footer aest
     (Some \<lparr>dt_year = 2024, dt_month = 12, dt_day = 31, dt_hour = 14, dt_minute = 5,
            dt_second = 0, dt_microsecond = 0\<rparr>) =
   ''01 January 2025 at 12:05 AM AEST''"
  by (simp add: time_defs)

lemma footer_format_leap_day: "format_timestamp_for_footer aest
     (Some \<lparr>dt_year = 2024, dt_month = 2, dt_day = 28, dt_hour = 14, dt_minute = 0,
            dt_second = 0, dt_microsecond = 0\<rparr>) =
   ''29 February 2024 at 12:00 AM AEST''"
  by (simp add: time_defs)

lemma footer_format_utc: "format_timestamp_for_footer (\<lambda>t. None)
     (Some \<lparr>dt_year = 2023, dt_month = 2, dt_day = 28, dt_hour = 23, dt_minute = 59,
            dt_second = 59, dt_microsecond = 0\<rparr>) =
   ''28 February 2023 23:59 UTC''"
  by (simp add: time_defs)

lemma footer_format_noon: "format_timestamp_for_footer aest
     (Some \<lparr>dt_year = 2024, dt_month = 7, dt_day = 1, dt_hour = 2, dt_minute = 0,
            dt_second = 0, dt_microsecond = 0\<rparr>) =
   ''01 July 2024 at 12:00 PM AEST''"
  by (simp add: time_defs)

lemma footer_format_last_day: "format_timestamp_for_footer aest
     (Some \<lparr>dt_year = 9999, dt_month = 12, dt_day = 31, dt_hour = 20, dt_minute = 0,
            dt_second = 0, dt_microsecond = 0\<rparr>) =
   ''31 December 9999 20:00 UTC''"
  by (simp add: time_defs)

lemma doc_template_dates:
  "doc_template t = (doc_template t0)\<lparr>ds_creationDate := t, ds_modDate := t\<rparr>"
  by (simp add: doc_template_def)

lemma build_doc_template:
  "ignores_dates build \<Longrightarrow>
   build (doc_template t) story callback = build (doc_template t0) story callback"
  unfolding ignores_dates_def by (subst doc_template_dates [of t t0]) simp

lemma full_footer_cong:
  "format_timestamp_for_footer zone (Some t1) = format_timestamp_for_footer zone (Some t2) \<Longrightarrow>
   create_full_footer_callback zone t1 h = create_full_footer_callback zone t2 h"
  by (rule ext) (simp add: create_full_footer_callback_def)

text \<open>
  Claim C2, amended: with a typesetting library whose output does not depend on the
  creation and modification dates (invariant mode), two runs that differ only in the
  timestamp return the same bytes and the same hash whenever
  \<^verbatim>\<open>format_timestamp_for_footer\<close> gives the same string for the two timestamps; the
  string is the local time to the minute.
\<close>

theorem same_footer_same_pdf:
  assumes "ignores_dates build"
    and "format_timestamp_for_footer zone (Some t1) = format_timestamp_for_footer zone (Some t2)"
  shows "generate_pdf_with_footer build sha zone blocks context plan t1 =
         generate_pdf_with_footer build sha zone blocks context plan t2"
  unfolding generate_pdf_with_footer_def Let_def
  by (simp add: build_doc_template [OF assms(1), of t1 _ _ t2] full_footer_cong [OF assms(2)])

lemma ignores_dates_one_page_text: "ignores_dates one_page_text"
  by (simp add: ignores_dates_def one_page_text_def)

lemmas compile_defs =
  generate_pdf_with_footer_def create_full_footer_callback_def simple_footer_def
  one_page_text_def short_hash_def render_clause_to_elements_def heading_only_plan_def
  str_of_int_def map_filter_simps

theorem same_footer_same_pdf_witness:
  "ignores_dates one_page_text
   \<and> format_timestamp_for_footer aest (Some (christmas_10 0 0)) =
       format_timestamp_for_footer aest (Some (christmas_10 0 1))
   \<and> generate_pdf_with_footer one_page_text (\<lambda>b. b) aest (\<lambda>b. None) new_WillContext
         heading_only_plan (christmas_10 0 0) =
       generate_pdf_with_footer one_page_text (\<lambda>b. b) aest (\<lambda>b. None) new_WillContext
         heading_only_plan (christmas_10 0 1)
   \<and> fst (generate_pdf_with_footer one_page_text (\<lambda>b. b) aest (\<lambda>b. None) new_WillContext
         heading_only_plan (christmas_10 0 1)) =
       ''1. AttestationGenerated: 25 December 2024 at 08:00 PM AEST | Hash: 1. AttestationPaPage 1''"
proof -
  have h: "format_timestamp_for_footer aest (Some (christmas_10 0 0)) =
       format_timestamp_for_footer aest (Some (christmas_10 0 1))"
    by (simp add: time_defs)
  have v: "fst (generate_pdf_with_footer one_page_text (\<lambda>b. b) aest (\<lambda>b. None) new_WillContext
         heading_only_plan (christmas_10 0 0)) =
       ''1. AttestationGenerated: 25 December 2024 at 08:00 PM AEST | Hash: 1. AttestationPaPage 1''"
    by (simp add: compile_defs time_defs)
  from same_footer_same_pdf [OF ignores_dates_one_page_text h,
      of "\<lambda>b. b" "\<lambda>b. None" new_WillContext heading_only_plan]
    ignores_dates_one_page_text h v
  show ?thesis by simp
qed

text \<open>
  Claim C2 says that the bytes are the same for any two timestamps. The footer text
  \<open>Generated: ... | Hash: ...\<close>, drawn on every page, carries the timestamp to the minute:
  for a plan of one clause, with a library that writes the drawn strings, two timestamps
  one minute apart give different bytes, whatever the digest.
\<close>

theorem later_minute_other_pdf:
  "ignores_dates one_page_text
   \<and> fst (generate_pdf_with_footer one_page_text (\<lambda>b. b) aest (\<lambda>b. None) new_WillContext
         heading_only_plan (christmas_10 0 0)) =
       ''1. AttestationGenerated: 25 December 2024 at 08:00 PM AEST | Hash: 1. AttestationPaPage 1''
   \<and> fst (generate_pdf_with_footer one_page_text (\<lambda>b. b) aest (\<lambda>b. None) new_WillContext
         heading_only_plan (christmas_10 1 0)) =
       ''1. AttestationGenerated: 25 December 2024 at 08:01 PM AEST | Hash: 1. AttestationPaPage 1''
   \<and> (\<forall>sha. fst (generate_pdf_with_footer one_page_text sha aest (\<lambda>b. None) new_WillContext
         heading_only_plan (christmas_10 0 0)) \<noteq>
       fst (generate_pdf_with_footer one_page_text sha aest (\<lambda>b. None) new_WillContext
         heading_only_plan (christmas_10 1 0)))"
  by (simp add: ignores_dates_one_page_text compile_defs time_defs)

text \<open>
  For an empty plan the library begins no page, the footer is not drawn, and the bytes are
  the same whatever the timestamp.
\<close>

lemma empty_plan_same_pdf:
  "generate_pdf_with_footer one_page_text sha zone blocks context [] t1 =
   generate_pdf_with_footer one_page_text sha zone blocks context [] t2"
  by (simp add: generate_pdf_with_footer_def one_page_text_def)

text \<open>The pair returned by the compiler passes the integrity check.\<close>

lemma generated_pair_verifies:
  "verify_pdf_integrity sha
     (fst (generate_pdf_with_footer build sha zone blocks context plan t))
     (PStr (snd (generate_pdf_with_footer build sha zone blocks context plan t)))"
  by (simp add: verify_pdf_integrity_def generate_pdf_with_footer_def Let_def)


end
